theory Spec2Isabelle
  imports Complex_Main "HOL-Library.Word"
begin

section \<open>JavaScript strings and the regular expressions of the services\<close>

text \<open>
  A JavaScript string is a sequence of UTF-16 code units; \<open>length\<close>, the character
  classes of a regular expression and \<open>includes\<close> all work on code units. The Gujarati
  words of the source are written as their code units.
\<close>

type_synonym unit16 = "16 word"

type_synonym jsstring = "unit16 list"

definition js :: "string \<Rightarrow> jsstring" where
  \<comment> \<open>an ASCII literal of the source as code units\<close>
  "js cs = map of_char cs"

definition revenue :: jsstring where
  \<comment> \<open>the word "revanyu" (revenue), U+0AB0 U+0AC7 U+0AB5 U+0AA8 U+0ACD U+0AAF U+0AC1\<close>
  "revenue = [0x0AB0, 0x0AC7, 0x0AB5, 0x0AA8, 0x0ACD, 0x0AAF, 0x0AC1]"

definition survey :: jsstring where
  \<comment> \<open>the word "sarve" (survey), U+0AB8 U+0AB0 U+0ACD U+0AB5 U+0AC7\<close>
  "survey = [0x0AB8, 0x0AB0, 0x0ACD, 0x0AB5, 0x0AC7]"

definition nam :: jsstring where
  \<comment> \<open>the abbreviation "nam" (number), U+0AA8 U+0A82\<close>
  "nam = [0x0AA8, 0x0A82]"

definition gam :: jsstring where
  \<comment> \<open>the word "gam" (village), U+0A97 U+0ABE U+0AAE\<close>
  "gam = [0x0A97, 0x0ABE, 0x0AAE]"

definition moje :: jsstring where
  \<comment> \<open>the word "moje", U+0AAE U+0ACB U+0A9C U+0AC7\<close>
  "moje = [0x0AAE, 0x0ACB, 0x0A9C, 0x0AC7]"

definition naa :: jsstring where
  \<comment> \<open>the suffix "na", U+0AA8 U+0ABE\<close>
  "naa = [0x0AA8, 0x0ABE]"

definition nii :: jsstring where
  \<comment> \<open>the suffix "ni", U+0AA8 U+0AC0\<close>
  "nii = [0x0AA8, 0x0AC0]"

definition nun :: jsstring where
  \<comment> \<open>the suffix "nun", U+0AA8 U+0AC1 U+0A82\<close>
  "nun = [0x0AA8, 0x0AC1, 0x0A82]"

subsection \<open>Character classes\<close>

definition line_terminator :: "unit16 \<Rightarrow> bool" where
  "line_terminator c \<longleftrightarrow> c = 0x0A \<or> c = 0x0D \<or> c = 0x2028 \<or> c = 0x2029"

definition white_space :: "unit16 \<Rightarrow> bool" where
  \<comment> \<open>what \<open>\s\<close> matches and what \<open>trim\<close> removes: WhiteSpace and LineTerminator\<close>
  "white_space c \<longleftrightarrow>
     (0x09 \<le> c \<and> c \<le> 0x0D) \<or> c = 0x20 \<or> c = 0xA0 \<or> c = 0x1680 \<or>
     (0x2000 \<le> c \<and> c \<le> 0x200A) \<or> c = 0x2028 \<or> c = 0x2029 \<or> c = 0x202F \<or>
     c = 0x205F \<or> c = 0x3000 \<or> c = 0xFEFF"

datatype cls =
    Dot                 \<comment> \<open>\<open>.\<close>: anything but a line terminator\<close>
  | Space               \<comment> \<open>\<open>\s\<close>\<close>
  | Ch unit16              \<comment> \<open>one code unit\<close>
  | Range unit16 unit16       \<comment> \<open>\<open>a-b\<close>\<close>
  | Union cls cls       \<comment> \<open>members of a bracket expression\<close>
  | Neg cls             \<comment> \<open>\<open>[^...]\<close> and \<open>\S\<close>\<close>

primrec in_cls :: "cls \<Rightarrow> unit16 \<Rightarrow> bool" where
  "in_cls Dot c = (\<not> line_terminator c)"
| "in_cls Space c = white_space c"
| "in_cls (Ch d) c = (c = d)"
| "in_cls (Range a b) c = (a \<le> c \<and> c \<le> b)"
| "in_cls (Union x y) c = (in_cls x c \<or> in_cls y c)"
| "in_cls (Neg x) c = (\<not> in_cls x c)"

subsection \<open>A backtracking matcher\<close>

text \<open>
  The patterns of the source use literals, classes, the greedy quantifiers \<open>*\<close>, \<open>+\<close> and
  \<open>{n,}\<close>, the anchors \<open>^\<close> and \<open>$\<close> (never with the \<open>m\<close> flag) and groups. \<open>ends r s i\<close>
  lists the positions at which a match of \<open>r\<close> that starts at \<open>i\<close> can end, in the order
  in which the backtracking matcher of ECMAScript tries them: the head is the match that
  \<open>exec\<close> reports. A greedy quantifier tries one more iteration before it tries to stop,
  and an iteration that consumes nothing is rejected. The \<open>i\<close> flag changes nothing
  in the patterns of the two services: no code unit of theirs has a case variant. The
  patterns of the server's route have two that do, which are written out there.
\<close>

datatype regex =
    Cls cls
  | Lit jsstring
  | Seq regex regex
  | Star regex
  | Plus regex
  | AtLeast nat regex
  | Bol
  | Eol
  | Group regex

fun star_iter :: "(nat \<Rightarrow> nat list) \<Rightarrow> nat \<Rightarrow> nat \<Rightarrow> nat list" where
  "star_iter f 0 i = [i]"
| "star_iter f (Suc n) i =
     concat (map (\<lambda>j. if i < j then star_iter f n j else []) (f i)) @ [i]"

fun rep_iter :: "(nat \<Rightarrow> nat list) \<Rightarrow> nat \<Rightarrow> (nat \<Rightarrow> nat list) \<Rightarrow> nat \<Rightarrow> nat list" where
  "rep_iter f 0 k i = k i"
| "rep_iter f (Suc n) k i = concat (map (rep_iter f n k) (f i))"

primrec ends :: "regex \<Rightarrow> jsstring \<Rightarrow> nat \<Rightarrow> nat list" where
  "ends (Cls c) s = (\<lambda>i. if i < length s \<and> in_cls c (s ! i) then [Suc i] else [])"
| "ends (Lit w) s = (\<lambda>i. if take (length w) (drop i s) = w then [i + length w] else [])"
| "ends (Seq a b) s = (\<lambda>i. concat (map (ends b s) (ends a s i)))"
| "ends (Star a) s = (\<lambda>i. star_iter (ends a s) (length s - i) i)"
| "ends (Plus a) s =
     (\<lambda>i. concat (map (\<lambda>j. star_iter (ends a s) (length s - j) j) (ends a s i)))"
| "ends (AtLeast n a) s =
     (\<lambda>i. rep_iter (ends a s) n (\<lambda>j. star_iter (ends a s) (length s - j) j) i)"
| "ends Bol s = (\<lambda>i. if i = 0 then [i] else [])"
| "ends Eol s = (\<lambda>i. if i = length s then [i] else [])"
| "ends (Group a) s = ends a s"

fun search_from :: "regex \<Rightarrow> jsstring \<Rightarrow> nat \<Rightarrow> nat \<Rightarrow> (nat \<times> nat) option" where
  "search_from r s 0 i = None"
| "search_from r s (Suc n) i =
     (case ends r s i of [] \<Rightarrow> search_from r s n (Suc i) | e # _ \<Rightarrow> Some (i, e))"

definition exec :: "regex \<Rightarrow> jsstring \<Rightarrow> nat \<Rightarrow> (nat \<times> nat) option" where
  \<comment> \<open>the leftmost match at or after \<open>lastIndex = p\<close>: its start and its end\<close>
  "exec r s p = search_from r s (Suc (length s) - p) p"

definition replace_first :: "regex \<Rightarrow> jsstring \<Rightarrow> jsstring \<Rightarrow> jsstring" where
  \<comment> \<open>\<open>s.replace(/r/, rep)\<close> without the \<open>g\<close> flag\<close>
  "replace_first r rep s =
     (case exec r s 0 of None \<Rightarrow> s | Some (i, e) \<Rightarrow> take i s @ rep @ drop e s)"

fun replace_loop :: "regex \<Rightarrow> jsstring \<Rightarrow> jsstring \<Rightarrow> nat \<Rightarrow> nat \<Rightarrow> nat \<Rightarrow> jsstring" where
  "replace_loop r rep s 0 p q = drop q s"
| "replace_loop r rep s (Suc n) p q =
     (case exec r s p of
        None \<Rightarrow> drop q s
      | Some (i, e) \<Rightarrow>
          take (i - q) (drop q s) @ rep @
          replace_loop r rep s n (if e = i then Suc e else e) e)"

definition replace_all :: "regex \<Rightarrow> jsstring \<Rightarrow> jsstring \<Rightarrow> jsstring" where
  \<comment> \<open>\<open>s.replace(/r/g, rep)\<close>: \<open>p\<close> is \<open>lastIndex\<close>, \<open>q\<close> the end of the previous match; after
      an empty match \<open>lastIndex\<close> advances by one\<close>
  "replace_all r rep s = replace_loop r rep s (Suc (length s)) 0 0"

fun match_loop :: "regex \<Rightarrow> jsstring \<Rightarrow> nat \<Rightarrow> nat \<Rightarrow> jsstring list" where
  "match_loop r s 0 p = []"
| "match_loop r s (Suc n) p =
     (case exec r s p of
        None \<Rightarrow> []
      | Some (i, e) \<Rightarrow>
          take (e - i) (drop i s) # match_loop r s n (if e = i then Suc e else e))"

definition match_all :: "regex \<Rightarrow> jsstring \<Rightarrow> jsstring list" where
  \<comment> \<open>\<open>s.match(/r/g)\<close>: every match as a string, groups left out; \<open>[]\<close> stands for \<open>null\<close>\<close>
  "match_all r s = match_loop r s (Suc (length s)) 0"

definition trim :: "jsstring \<Rightarrow> jsstring" where
  "trim s = rev (dropWhile white_space (rev (dropWhile white_space s)))"

definition includes_js :: "jsstring \<Rightarrow> jsstring \<Rightarrow> bool" where
  \<comment> \<open>\<open>s.includes(w)\<close>\<close>
  "includes_js s w \<longleftrightarrow> (\<exists>i \<in> set [0 ..< Suc (length s)]. take (length w) (drop i s) = w)"

fun seqs :: "regex list \<Rightarrow> regex" where
  "seqs [] = Lit []"
| "seqs [r] = r"
| "seqs (r # rs) = Seq r (seqs rs)"

section \<open>Values and errors\<close>

text \<open>
  The values of the program: what \<open>JSON.parse\<close> returns, and \<open>undefined\<close>, \<open>NaN\<close> and
  \<open>Date\<close> objects, which arise in the services themselves. Numbers are real numbers; a
  \<open>Date\<close> is its time value in milliseconds since the epoch, or invalid. An object is the
  list of its own properties in insertion order.
\<close>

datatype jsvalue =
    JUndefined
  | JNull
  | JBool bool
  | JNum real
  | JNaN
  | JStr jsstring
  | JArr "jsvalue list"
  | JObj "(jsstring \<times> jsvalue) list"
  | JDate "int option"

datatype error =
    SyntaxError jsstring     \<comment> \<open>\<open>JSON.parse\<close> on this text\<close>
  | TypeError jsstring       \<comment> \<open>with its message\<close>
  | Error jsstring           \<comment> \<open>\<open>new Error(message)\<close>\<close>
  | RangeError

fun truthy :: "jsvalue \<Rightarrow> bool" where
  "truthy JUndefined = False"
| "truthy JNull = False"
| "truthy (JBool b) = b"
| "truthy (JNum x) = (x \<noteq> 0)"
| "truthy JNaN = False"
| "truthy (JStr s) = (s \<noteq> [])"
| "truthy (JArr xs) = True"
| "truthy (JObj kvs) = True"
| "truthy (JDate d) = True"

section \<open>The text cleaner of the geocoding service\<close>

definition digits_punct :: cls where
  \<comment> \<open>\<open>[0-9\.\-\/]\<close>\<close>
  "digits_punct = Union (Range 0x30 0x39) (Union (Ch 0x2E) (Union (Ch 0x2D) (Ch 0x2F)))"

definition geo_revenue_survey :: regex where
  \<comment> \<open>\<open>/revenue\s*survey\s*nam.*$/gi\<close>\<close>
  "geo_revenue_survey =
     seqs [Lit revenue, Star (Cls Space), Lit survey, Star (Cls Space), Lit nam,
           Star (Cls Dot), Eol]"

definition geo_survey :: regex where
  \<comment> \<open>\<open>/survey\s*nam.*$/gi\<close>\<close>
  "geo_survey = seqs [Lit survey, Star (Cls Space), Lit nam, Star (Cls Dot), Eol]"

definition geo_gam_prefix :: regex where
  \<comment> \<open>\<open>/^gam\s*/gi\<close>\<close>
  "geo_gam_prefix = seqs [Bol, Lit gam, Star (Cls Space)]"

definition strip_geocoding :: "jsstring \<Rightarrow> jsstring" where
  \<comment> \<open>the chain of \<open>replace\<close> calls and the \<open>trim\<close>\<close>
  "strip_geocoding s =
     trim (replace_all (Plus (Cls Space)) (js '' '')
       (replace_all (Plus (Cls digits_punct)) []
         (replace_all geo_gam_prefix []
           (replace_all geo_survey []
             (replace_all geo_revenue_survey [] s)))))"

definition cleanVillageNameForGeocoding :: "jsvalue \<Rightarrow> error + jsvalue" where
  \<comment> \<open>a truthy value that is not a string has no method \<open>replace\<close>\<close>
  "cleanVillageNameForGeocoding villageName =
     (if \<not> truthy villageName then Inr (JStr [])
      else case villageName of
             JStr s \<Rightarrow>
               (let cleaned = strip_geocoding s
                in if length cleaned < 3 then Inr villageName else Inr (JStr cleaned))
           | _ \<Rightarrow> Inl (TypeError (js ''villageName.replace is not a function'')))"

section \<open>The village-name post-processor of the extractor\<close>

definition pp_revenue_survey :: regex where
  \<comment> \<open>\<open>/\s*revenue\s*survey\s*nam.*$/gi\<close>\<close>
  "pp_revenue_survey =
     seqs [Star (Cls Space), Lit revenue, Star (Cls Space), Lit survey, Star (Cls Space),
           Lit nam, Star (Cls Dot), Eol]"

definition pp_survey :: regex where
  \<comment> \<open>\<open>/\s*survey\s*nam.*$/gi\<close>\<close>
  "pp_survey =
     seqs [Star (Cls Space), Lit survey, Star (Cls Space), Lit nam, Star (Cls Dot), Eol]"

definition pp_suffix :: "jsstring \<Rightarrow> regex" where
  \<comment> \<open>\<open>/w\s*$/\<close> for the suffixes na, ni and nun\<close>
  "pp_suffix w = seqs [Lit w, Star (Cls Space), Eol]"

definition pp_moje_gam_prefix :: regex where
  \<comment> \<open>\<open>/^moje\s+gam\s+/\<close>\<close>
  "pp_moje_gam_prefix = seqs [Bol, Lit moje, Plus (Cls Space), Lit gam, Plus (Cls Space)]"

definition pp_gam_prefix :: regex where
  \<comment> \<open>\<open>/^gam\s+/\<close>\<close>
  "pp_gam_prefix = seqs [Bol, Lit gam, Plus (Cls Space)]"

definition step1 :: "jsstring \<Rightarrow> jsstring" where
  \<comment> \<open>Step 1: the chain of \<open>replace\<close> calls and the \<open>trim\<close>\<close>
  "step1 originalName =
     trim (replace_all (Plus (Cls Space)) (js '' '')
       (replace_all (Plus (Cls digits_punct)) []
         (replace_first pp_gam_prefix []
           (replace_first pp_moje_gam_prefix []
             (replace_first (pp_suffix nun) []
               (replace_first (pp_suffix nii) []
                 (replace_first (pp_suffix naa) []
                   (replace_all pp_survey []
                     (replace_all pp_revenue_survey [] originalName)))))))))"

definition word_cls :: cls where
  \<comment> \<open>\<open>[^\s,\.]\<close>\<close>
  "word_cls = Neg (Union Space (Union (Ch 0x2C) (Ch 0x2E)))"

definition patterns :: "regex list" where
  \<comment> \<open>the six patterns of Step 2, in the order of the source, each with the \<open>g\<close> flag\<close>
  "patterns =
     [seqs [Lit moje, Plus (Cls Space), Lit gam, Plus (Cls Space),
            Group (Plus (Cls word_cls)), Lit naa],
      seqs [Lit gam, Plus (Cls Space), Group (Plus (Cls word_cls)), Lit naa],
      seqs [Group (Plus (Cls word_cls)), Lit naa, Plus (Cls Space), Lit revenue],
      seqs [Group (Plus (Cls word_cls)), Lit naa, Plus (Cls Space), Lit survey],
      seqs [Group (Plus (Cls word_cls)), Lit naa, Eol],
      Group (AtLeast 2 (Cls word_cls))]"

definition needs_extraction :: "jsstring \<Rightarrow> bool" where
  \<comment> \<open>the condition of Step 2\<close>
  "needs_extraction c \<longleftrightarrow> 10 < length c \<or> includes_js c survey \<or> includes_js c revenue"

definition valid_candidate :: "jsstring \<Rightarrow> bool" where
  "valid_candidate c \<longleftrightarrow>
     2 \<le> length c \<and> length c \<le> 10 \<and> \<not> includes_js c survey \<and>
     \<not> includes_js c revenue \<and> \<not> includes_js c nam"

text \<open>
  The loop over the patterns. \<open>originalName.match(pattern)\<close> with a global pattern is the
  array of all matches of the whole pattern, so \<open>match[1]\<close> is the second match.
\<close>

fun extract_candidate :: "regex list \<Rightarrow> jsstring \<Rightarrow> jsstring option" where
  "extract_candidate [] originalName = None"
| "extract_candidate (pattern # rest) originalName =
     (case match_all pattern originalName of
        m0 # m1 # _ \<Rightarrow>
          if m1 \<noteq> [] \<and> valid_candidate (trim m1) then Some (trim m1)
          else extract_candidate rest originalName
      | _ \<Rightarrow> extract_candidate rest originalName)"

definition postProcess_name :: "jsstring \<Rightarrow> jsstring" where
  \<comment> \<open>Steps 1 to 4 of \<open>postProcessVillageNames\<close> on a non-empty \<open>village_name\<close>\<close>
  "postProcess_name originalName =
     (let cleaned1 = step1 originalName;
          cleaned2 = (if needs_extraction cleaned1
                      then (case extract_candidate patterns originalName of
                              Some candidate \<Rightarrow> candidate | None \<Rightarrow> cleaned1)
                      else cleaned1);
          cleaned3 = (if length cleaned2 < 2 then originalName else cleaned2)
      in if cleaned3 \<noteq> [] then cleaned3 else originalName)"

subsection \<open>Strings that the cleaner has nothing to remove from\<close>

fun single_spaced :: "jsstring \<Rightarrow> bool" where
  "single_spaced [] = True"
| "single_spaced [c] = (if white_space c then c = 0x20 else True)"
| "single_spaced (c # d # cs) =
     ((if white_space c then c = 0x20 \<and> \<not> white_space d else True) \<and> single_spaced (d # cs))"

definition already_clean :: "jsstring \<Rightarrow> bool" where
  \<comment> \<open>no survey word, no leading "gam", no digit, dot, hyphen or slash, words separated by
      one U+0020 each, no white space at either end\<close>
  "already_clean s \<longleftrightarrow>
     \<not> includes_js s survey \<and> take (length gam) s \<noteq> gam \<and>
     (\<forall>c \<in> set s. \<not> in_cls digits_punct c) \<and> single_spaced s \<and>
     (s = [] \<or> (\<not> white_space (hd s) \<and> \<not> white_space (last s)))"

subsection \<open>Sample names\<close>

definition ribda :: jsstring where
  \<comment> \<open>the village name "Ribda", U+0AB0 U+0AC0 U+0AAC U+0AA1 U+0ABE\<close>
  "ribda = [0x0AB0, 0x0AC0, 0x0AAC, 0x0AA1, 0x0ABE]"

definition d367 :: jsstring where
  \<comment> \<open>the Gujarati digits 3 6 7, U+0AE9 U+0AEC U+0AED\<close>
  "d367 = [0x0AE9, 0x0AEC, 0x0AED]"

definition ribdana_revenue_survey :: jsstring where
  \<comment> \<open>"Ribda-na revenue survey"\<close>
  "ribdana_revenue_survey = ribda @ naa @ js '' '' @ revenue @ js '' '' @ survey"

definition scenarioB :: jsstring where
  \<comment> \<open>"gam Ribda-na revenue survey nam 367"\<close>
  "scenarioB = gam @ js '' '' @ ribda @ naa @ js '' '' @ revenue @ js '' '' @ survey @
     js '' '' @ nam @ js '' '' @ d367"

section \<open>Objects and \<open>JSON.parse\<close>\<close>

definition get :: "jsvalue \<Rightarrow> jsstring \<Rightarrow> jsvalue" where
  \<comment> \<open>\<open>v.k\<close> for a value that is neither \<open>null\<close> nor \<open>undefined\<close> and a key \<open>k\<close> that is neither
      an index nor \<open>length\<close>: only an object has such a property of its own\<close>
  "get v k = (case v of JObj kvs \<Rightarrow> (case map_of kvs k of Some x \<Rightarrow> x | None \<Rightarrow> JUndefined)
              | _ \<Rightarrow> JUndefined)"

definition getprop :: "jsvalue \<Rightarrow> jsstring \<Rightarrow> error + jsvalue" where
  \<comment> \<open>\<open>v.k\<close>, which raises on \<open>null\<close> and \<open>undefined\<close>\<close>
  "getprop v k =
     (if v = JNull \<or> v = JUndefined
      then Inl (TypeError (js ''Cannot read properties of null or undefined''))
      else Inr (get v k))"

text \<open>Defining a property: an existing key keeps its place, a new key goes last.\<close>

fun put :: "jsstring \<Rightarrow> jsvalue \<Rightarrow> (jsstring \<times> jsvalue) list \<Rightarrow> (jsstring \<times> jsvalue) list" where
  "put k v [] = [(k, v)]"
| "put k v ((k', v') # kvs) = (if k = k' then (k, v) # kvs else (k', v') # put k v kvs)"

definition or_else :: "jsvalue \<Rightarrow> jsvalue \<Rightarrow> jsvalue" where
  \<comment> \<open>\<open>a || b\<close>\<close>
  "or_else a b = (if truthy a then a else b)"

definition is_object :: "jsvalue \<Rightarrow> bool" where
  \<comment> \<open>\<open>typeof v === 'object'\<close>\<close>
  "is_object v = (case v of JNull \<Rightarrow> True | JArr _ \<Rightarrow> True | JObj _ \<Rightarrow> True
                   | JDate _ \<Rightarrow> True | _ \<Rightarrow> False)"

subsection \<open>The JSON grammar\<close>

text \<open>
  \<open>JSON.parse\<close> belongs to the language, not to the repository; it is modelled after
  ECMA-404: white space is space, tab, line feed and carriage return, a number is read as
  the real number it denotes, and a repeated key keeps its last value. The recursion is
  on a fuel of twice the length of the text, which bounds the nesting of any text.
\<close>

definition json_ws :: "unit16 \<Rightarrow> bool" where
  "json_ws c \<longleftrightarrow> c = 0x20 \<or> c = 0x09 \<or> c = 0x0A \<or> c = 0x0D"

definition skip_ws :: "jsstring \<Rightarrow> jsstring" where
  "skip_ws s = dropWhile json_ws s"

definition is_digit :: "unit16 \<Rightarrow> bool" where
  "is_digit c \<longleftrightarrow> 0x30 \<le> c \<and> c \<le> 0x39"

definition digit_val :: "unit16 \<Rightarrow> nat" where
  "digit_val c = unat c - 48"

definition digits_value :: "jsstring \<Rightarrow> nat" where
  "digits_value ds = foldl (\<lambda>a c. 10 * a + digit_val c) 0 ds"

definition hex_val :: "unit16 \<Rightarrow> nat option" where
  "hex_val c =
     (if 0x30 \<le> c \<and> c \<le> 0x39 then Some (unat c - 48)
      else if 0x41 \<le> c \<and> c \<le> 0x46 then Some (unat c - 55)
      else if 0x61 \<le> c \<and> c \<le> 0x66 then Some (unat c - 87)
      else None)"

definition hex4 :: "unit16 \<Rightarrow> unit16 \<Rightarrow> unit16 \<Rightarrow> unit16 \<Rightarrow> unit16 option" where
  "hex4 a b c d =
     (case (hex_val a, hex_val b, hex_val c, hex_val d) of
        (Some w, Some x, Some y, Some z) \<Rightarrow> Some (of_nat (((w * 16 + x) * 16 + y) * 16 + z))
      | _ \<Rightarrow> None)"

definition escape :: "unit16 \<Rightarrow> unit16 option" where
  \<comment> \<open>the character after a backslash: quote, backslash, slash, b, f, n, r, t\<close>
  "escape c =
     (if c = 0x22 \<or> c = 0x5C \<or> c = 0x2F then Some c
      else if c = 0x62 then Some 0x08
      else if c = 0x66 then Some 0x0C
      else if c = 0x6E then Some 0x0A
      else if c = 0x72 then Some 0x0D
      else if c = 0x74 then Some 0x09
      else None)"

fun parse_string_body :: "jsstring \<Rightarrow> (jsstring \<times> jsstring) option" where
  "parse_string_body [] = None"
| "parse_string_body (c # cs) =
     (if c = 0x22 then Some ([], cs)
      else if c < 0x20 then None
      else if c = 0x5C then
        (case cs of
           [] \<Rightarrow> None
         | e # r \<Rightarrow>
             if e = 0x75 then
               (case r of
                  h1 # h2 # h3 # h4 # r' \<Rightarrow>
                    (case hex4 h1 h2 h3 h4 of
                       None \<Rightarrow> None
                     | Some u \<Rightarrow> map_option (\<lambda>(t, rest). (u # t, rest)) (parse_string_body r'))
                | _ \<Rightarrow> None)
             else
               (case escape e of
                  None \<Rightarrow> None
                | Some u \<Rightarrow> map_option (\<lambda>(t, rest). (u # t, rest)) (parse_string_body r)))
      else map_option (\<lambda>(t, rest). (c # t, rest)) (parse_string_body cs))"

definition sign_part :: "jsstring \<Rightarrow> bool \<times> jsstring" where
  "sign_part s =
     (case s of c # r \<Rightarrow> if c = 0x2D then (True, r) else (False, s) | [] \<Rightarrow> (False, s))"

definition fraction_part :: "jsstring \<Rightarrow> jsstring option \<times> jsstring" where
  "fraction_part s =
     (case s of
        c # r \<Rightarrow> if c = 0x2E then (Some (takeWhile is_digit r), dropWhile is_digit r)
                 else (None, s)
      | [] \<Rightarrow> (None, s))"

definition exponent_part :: "jsstring \<Rightarrow> (bool \<times> jsstring) option \<times> jsstring" where
  \<comment> \<open>the sign of the exponent (minus is \<open>True\<close>) and its digits\<close>
  "exponent_part s =
     (case s of
        c # r \<Rightarrow>
          if c = 0x65 \<or> c = 0x45 then
            (case r of
               g # r' \<Rightarrow>
                 if g = 0x2D then (Some (True, takeWhile is_digit r'), dropWhile is_digit r')
                 else if g = 0x2B
                 then (Some (False, takeWhile is_digit r'), dropWhile is_digit r')
                 else (Some (False, takeWhile is_digit r), dropWhile is_digit r)
             | [] \<Rightarrow> (Some (False, []), r))
          else (None, s)
      | [] \<Rightarrow> (None, s))"

definition parse_number :: "jsstring \<Rightarrow> (real \<times> jsstring) option" where
  \<comment> \<open>\<open>-? (0 | [1-9][0-9]*) (. [0-9]+)? ([eE] [+-]? [0-9]+)?\<close>\<close>
  "parse_number s =
     (let (neg, s1) = sign_part s;
          ip = takeWhile is_digit s1;
          s2 = dropWhile is_digit s1;
          (fp, s3) = fraction_part s2;
          (ex, s4) = exponent_part s3
      in if ip = [] \<or> (1 < length ip \<and> hd ip = 0x30) \<or> fp = Some [] \<or>
            (case ex of Some (_, ds) \<Rightarrow> ds = [] | None \<Rightarrow> False)
         then None
         else
           let m = real (digits_value ip) +
                   (case fp of Some ds \<Rightarrow> real (digits_value ds) / 10 ^ length ds | None \<Rightarrow> 0);
               x = (case ex of
                      Some (True, ds) \<Rightarrow> m / 10 ^ digits_value ds
                    | Some (False, ds) \<Rightarrow> m * 10 ^ digits_value ds
                    | None \<Rightarrow> m)
           in Some (if neg then - x else x, s4))"

fun parse_value :: "nat \<Rightarrow> jsstring \<Rightarrow> (jsvalue \<times> jsstring) option"
  and parse_elements :: "nat \<Rightarrow> jsstring \<Rightarrow> jsvalue list \<Rightarrow> (jsvalue \<times> jsstring) option"
  and parse_members ::
    "nat \<Rightarrow> jsstring \<Rightarrow> (jsstring \<times> jsvalue) list \<Rightarrow> (jsvalue \<times> jsstring) option" where
  "parse_value 0 s = None"
| "parse_value (Suc n) s =
     (case skip_ws s of
        [] \<Rightarrow> None
      | c # r \<Rightarrow>
          if c = 0x7B then
            (case skip_ws r of
               [] \<Rightarrow> None
             | d # r' \<Rightarrow> if d = 0x7D then Some (JObj [], r') else parse_members n r [])
          else if c = 0x5B then
            (case skip_ws r of
               [] \<Rightarrow> None
             | d # r' \<Rightarrow> if d = 0x5D then Some (JArr [], r') else parse_elements n r [])
          else if c = 0x22 then
            (case parse_string_body r of None \<Rightarrow> None | Some (t, r') \<Rightarrow> Some (JStr t, r'))
          else if take 4 (c # r) = js ''null'' then Some (JNull, drop 4 (c # r))
          else if take 4 (c # r) = js ''true'' then Some (JBool True, drop 4 (c # r))
          else if take 5 (c # r) = js ''false'' then Some (JBool False, drop 5 (c # r))
          else (case parse_number (c # r) of None \<Rightarrow> None | Some (x, r') \<Rightarrow> Some (JNum x, r')))"
| "parse_elements 0 s acc = None"
| "parse_elements (Suc n) s acc =
     (case parse_value n s of
        None \<Rightarrow> None
      | Some (v, r) \<Rightarrow>
          (case skip_ws r of
             [] \<Rightarrow> None
           | d # r' \<Rightarrow>
               if d = 0x2C then parse_elements n r' (acc @ [v])
               else if d = 0x5D then Some (JArr (acc @ [v]), r')
               else None))"
| "parse_members 0 s acc = None"
| "parse_members (Suc n) s acc =
     (case skip_ws s of
        [] \<Rightarrow> None
      | q # r \<Rightarrow>
          if q \<noteq> 0x22 then None
          else
            (case parse_string_body r of
               None \<Rightarrow> None
             | Some (k, r1) \<Rightarrow>
                 (case skip_ws r1 of
                    [] \<Rightarrow> None
                  | c # r2 \<Rightarrow>
                      if c \<noteq> 0x3A then None
                      else
                        (case parse_value n r2 of
                           None \<Rightarrow> None
                         | Some (v, r3) \<Rightarrow>
                             (case skip_ws r3 of
                                [] \<Rightarrow> None
                              | d # r4 \<Rightarrow>
                                  if d = 0x2C then parse_members n r4 (put k v acc)
                                  else if d = 0x7D then Some (JObj (put k v acc), r4)
                                  else None)))))"

definition JSON_parse :: "jsstring \<Rightarrow> error + jsvalue" where
  "JSON_parse s =
     (case parse_value (2 * length s + 2) s of
        None \<Rightarrow> Inl (SyntaxError s)
      | Some (v, r) \<Rightarrow> if skip_ws r = [] then Inr v else Inl (SyntaxError s))"

function dec :: "int \<Rightarrow> jsstring" where
  "dec n = (if n < 10 then [of_int (48 + n)] else dec (n div 10) @ [of_int (48 + n mod 10)])"
  by pat_completeness auto
termination
  by (relation "measure nat") auto

definition own_props :: "jsvalue \<Rightarrow> (jsstring \<times> jsvalue) list" where
  \<comment> \<open>what \<open>{...v}\<close> copies: the properties of an object, the elements of an array and the
      code units of a string under their indices, nothing of any other value\<close>
  "own_props v =
     (case v of
        JObj kvs \<Rightarrow> kvs
      | JArr xs \<Rightarrow> zip (map (\<lambda>i. dec (int i)) [0 ..< length xs]) xs
      | JStr s \<Rightarrow> zip (map (\<lambda>i. dec (int i)) [0 ..< length s]) (map (\<lambda>c. JStr [c]) s)
      | _ \<Rightarrow> [])"

definition puts :: "(jsstring \<times> jsvalue) list \<Rightarrow> (jsstring \<times> jsvalue) list \<Rightarrow> (jsstring \<times> jsvalue) list" where
  \<comment> \<open>the properties \<open>ps\<close> defined one after the other on the object \<open>base\<close>\<close>
  "puts ps base = foldl (\<lambda>acc (k, v). put k v acc) base ps"

definition message :: "error \<Rightarrow> jsstring" where
  \<comment> \<open>\<open>error.message\<close>; the wording of the engine's own errors is not modelled beyond one
      fixed text for each kind\<close>
  "message e =
     (case e of SyntaxError s \<Rightarrow> js ''Unexpected token in JSON'' | TypeError m \<Rightarrow> m
      | Error m \<Rightarrow> m | RangeError \<Rightarrow> js ''Invalid time value'')"

section \<open>The field extractor\<close>

definition postProcessVillageNames :: "jsvalue \<Rightarrow> error + jsvalue" where
  "postProcessVillageNames extractedData =
     (case getprop extractedData (js ''village_name'') of
        Inl e \<Rightarrow> Inl e
      | Inr village_name \<Rightarrow>
          if \<not> truthy village_name then Inr extractedData
          else case village_name of
                 JStr originalName \<Rightarrow>
                   (let finalVillageName = postProcess_name originalName
                    in Inr (JObj (puts [(js ''village_name'', JStr finalVillageName),
                                        (js ''village_name_cleaned'', JStr finalVillageName)]
                                   (own_props extractedData))))
               | _ \<Rightarrow> Inl (TypeError (js ''originalName.replace is not a function'')))"

definition fence :: jsstring where
  \<comment> \<open>three backquotes\<close>
  "fence = [0x60, 0x60, 0x60]"

definition strip_fences :: "jsstring \<Rightarrow> jsstring" where
  \<comment> \<open>\<open>trim\<close>, then the four \<open>replace\<close> calls that remove the markdown code fences\<close>
  "strip_fences response =
     replace_first (seqs [Lit fence, Star (Cls Space), Eol]) []
       (replace_first (seqs [Lit fence, Star (Cls Space)]) []
         (replace_first (seqs [Lit fence, Star (Cls Space), Eol]) []
           (replace_first (seqs [Lit (fence @ js ''json''), Star (Cls Space)]) []
             (trim response))))"

record extraction =
  data :: jsvalue
  confidence :: jsvalue
  notes_text :: jsvalue

definition ToNumber :: "(jsvalue \<Rightarrow> jsvalue) \<Rightarrow> jsvalue \<Rightarrow> jsvalue" where
  \<comment> \<open>the conversion that \<open>Math.max\<close> applies to its arguments; that of a string, an array
      or an object to a number or \<open>NaN\<close> is the engine's, given by \<open>conv\<close>\<close>
  "ToNumber conv v =
     (case v of
        JNum x \<Rightarrow> JNum x
      | JNaN \<Rightarrow> JNaN
      | JUndefined \<Rightarrow> JNaN
      | JNull \<Rightarrow> JNum 0
      | JBool b \<Rightarrow> JNum (if b then 1 else 0)
      | JDate d \<Rightarrow> (case d of Some t \<Rightarrow> JNum (real_of_int t) | None \<Rightarrow> JNaN)
      | _ \<Rightarrow> (case conv v of JNum x \<Rightarrow> JNum x | _ \<Rightarrow> JNaN))"

definition Math_max :: "jsvalue \<Rightarrow> jsvalue \<Rightarrow> jsvalue" where
  \<comment> \<open>on numbers and \<open>NaN\<close>\<close>
  "Math_max a b = (case (a, b) of (JNum x, JNum y) \<Rightarrow> JNum (max x y) | _ \<Rightarrow> JNaN)"

definition Math_min :: "jsvalue \<Rightarrow> jsvalue \<Rightarrow> jsvalue" where
  "Math_min a b = (case (a, b) of (JNum x, JNum y) \<Rightarrow> JNum (min x y) | _ \<Rightarrow> JNaN)"

definition field_names :: "jsstring list" where
  "field_names =
     [js ''village_name'', js ''village_name_cleaned'', js ''survey_number'',
      js ''buyer_name'', js ''seller_name'', js ''notice_date'', js ''advocate_name'',
      js ''advocate_address'', js ''advocate_mobile'', js ''district'', js ''taluka'']"

definition empty_structure :: extraction where
  \<comment> \<open>the ultimate fallback\<close>
  "empty_structure =
     \<lparr>data = JObj (map (\<lambda>k. (k, JNull)) field_names),
      confidence = JNum 0.1,
      notes_text = JStr (js ''Failed to parse Gemini response, returned empty structure'')\<rparr>"

definition parse_main :: "(jsvalue \<Rightarrow> jsvalue) \<Rightarrow> jsstring \<Rightarrow> error + extraction" where
  \<comment> \<open>the \<open>try\<close> block of \<open>parseGeminiResponse\<close>\<close>
  "parse_main conv geminiResponse =
     (case JSON_parse (strip_fences geminiResponse) of
        Inl e \<Rightarrow> Inl e
      | Inr parsed \<Rightarrow>
          (case getprop parsed (js ''data'') of
             Inl e \<Rightarrow> Inl e
           | Inr d \<Rightarrow>
               if \<not> truthy d \<or> \<not> is_object d
               then Inl (Error (js ''Invalid response structure: missing data object''))
               else
                 (case postProcessVillageNames d of
                    Inl e \<Rightarrow> Inl e
                  | Inr cleanedData \<Rightarrow>
                      (let confidence = or_else (get parsed (js ''confidence'')) (JNum 0.5);
                           validConfidence =
                             Math_min (Math_max (ToNumber conv confidence) (JNum 0)) (JNum 1)
                       in Inr \<lparr>data = cleanedData,
                               confidence = validConfidence,
                               notes_text = or_else (get parsed (js ''notes''))
                                         (JStr (js ''Processed with Gemini AI''))\<rparr>))))"

definition json_block :: regex where
  \<comment> \<open>\<open>/\{[\s\S]*\}/\<close>\<close>
  "json_block = seqs [Cls (Ch 0x7B), Star (Cls (Union Space (Neg Space))), Cls (Ch 0x7D)]"

definition parse_fallback :: "jsstring \<Rightarrow> extraction option" where
  \<comment> \<open>the fallback of the \<open>catch\<close> block; \<open>None\<close> when it falls through\<close>
  "parse_fallback geminiResponse =
     (case exec json_block geminiResponse 0 of
        None \<Rightarrow> None
      | Some (i, e) \<Rightarrow>
          (case JSON_parse (take (e - i) (drop i geminiResponse)) of
             Inl _ \<Rightarrow> None
           | Inr fallbackParsed \<Rightarrow>
               (case getprop fallbackParsed (js ''data'') of
                  Inl _ \<Rightarrow> None
                | Inr d \<Rightarrow>
                    if truthy d
                    then Some \<lparr>data = d,
                               confidence =
                                 or_else (get fallbackParsed (js ''confidence'')) (JNum 0.3),
                               notes_text = JStr (js ''Parsed with fallback method'')\<rparr>
                    else None)))"

definition parseGeminiResponse :: "(jsvalue \<Rightarrow> jsvalue) \<Rightarrow> jsstring \<Rightarrow> extraction" where
  "parseGeminiResponse conv geminiResponse =
     (case parse_main conv geminiResponse of
        Inr result \<Rightarrow> result
      | Inl error \<Rightarrow>
          (case parse_fallback geminiResponse of
             Some result \<Rightarrow> result
           | None \<Rightarrow> empty_structure))"

section \<open>The refinement pass\<close>

text \<open>
  The call of the generative model is an input of the model: it raised an error or returned
  a text. \<open>elapsed\<close> is what \<open>Date.now() - startTime\<close> gives where the result is built.
\<close>

definition refine_try :: "error + jsstring \<Rightarrow> real \<Rightarrow> jsvalue \<Rightarrow> error + jsvalue" where
  \<comment> \<open>the \<open>try\<close> block after the test of the credential\<close>
  "refine_try call elapsed extractedData =
     (case getprop extractedData (js ''village_name'') of
        Inl e \<Rightarrow> Inl e
      | Inr _ \<Rightarrow>
          (case call of
             Inl e \<Rightarrow> Inl e
           | Inr text \<Rightarrow>
               (case JSON_parse (strip_fences text) of
                  Inl parseError \<Rightarrow>
                    Inl (Error (js ''Refinement response parsing failed: '' @
                                message parseError))
                | Inr refinedData \<Rightarrow>
                    (case getprop refinedData (js ''confidence_score'') of
                       Inl e \<Rightarrow> Inl e
                     | Inr confidence_score \<Rightarrow>
                         Inr (JObj (puts
                           [(js ''original_village_name'', get extractedData (js ''village_name'')),
                            (js ''original_survey_number'', get extractedData (js ''survey_number'')),
                            (js ''original_notice_date'', get extractedData (js ''notice_date'')),
                            (js ''original_latitude'', get extractedData (js ''latitude'')),
                            (js ''original_longitude'', get extractedData (js ''longitude'')),
                            (js ''refinement_applied'', JBool True),
                            (js ''refinement_confidence'', confidence_score),
                            (js ''refinement_notes'', get refinedData (js ''refinement_notes'')),
                            (js ''refinement_time_ms'', JNum elapsed)]
                           (puts (own_props refinedData) (own_props extractedData))))))))"

definition refineExtractedDataWithGemini ::
  "bool \<Rightarrow> error + jsstring \<Rightarrow> real \<Rightarrow> jsvalue \<Rightarrow> jsvalue" where
  \<comment> \<open>\<open>has_key\<close>: the credential is configured\<close>
  "refineExtractedDataWithGemini has_key call elapsed extractedData =
     (if \<not> has_key then extractedData
      else case refine_try call elapsed extractedData of
             Inr mergedData \<Rightarrow> mergedData
           | Inl error \<Rightarrow>
               JObj (puts [(js ''refinement_applied'', JBool False),
                           (js ''refinement_error'', JStr (message error)),
                           (js ''refinement_time_ms'', JNum elapsed)]
                      (own_props extractedData)))"

definition failure_tags :: "jsstring set" where
  \<comment> \<open>the keys that the failure path of the refinement writes\<close>
  "failure_tags =
     {js ''refinement_applied'', js ''refinement_error'', js ''refinement_time_ms''}"

definition merge_tags :: "jsstring set" where
  \<comment> \<open>the keys that the merge writes after the two spreads\<close>
  "merge_tags =
     {js ''original_village_name'', js ''original_survey_number'', js ''original_notice_date'',
      js ''original_latitude'', js ''original_longitude'', js ''refinement_applied'',
      js ''refinement_confidence'', js ''refinement_notes'', js ''refinement_time_ms''}"

subsection \<open>An engine parameter for the examples\<close>

definition example_conv :: "jsvalue \<Rightarrow> jsvalue" where
  \<comment> \<open>a conversion that finds no number in a string, an array or an object; no example
      below reaches it with a numeric string\<close>
  "example_conv v = JNaN"

section \<open>Coordinate reconciliation\<close>

text \<open>
  \<open>getPerfectCoordinatesWithGemini\<close> from the parsed reply on. The reply's latitude,
  longitude and confidence are numbers or absent, as the prompt demands, and numbers are
  real numbers. The result is shown with the fields that concern the coordinates;
  \<open>formatted_address\<close> and \<open>processing_time_ms\<close> are left out.
\<close>

definition atan2 :: "real \<Rightarrow> real \<Rightarrow> real" where
  \<comment> \<open>\<open>Math.atan2(y, x)\<close>\<close>
  "atan2 y x =
     (if 0 < x then arctan (y / x)
      else if x < 0 \<and> 0 \<le> y then arctan (y / x) + pi
      else if x < 0 \<and> y < 0 then arctan (y / x) - pi
      else if 0 < y then pi / 2
      else if y < 0 then - pi / 2
      else 0)"

definition calculateDistance :: "real \<Rightarrow> real \<Rightarrow> real \<Rightarrow> real \<Rightarrow> real" where
  "calculateDistance lat1 lon1 lat2 lon2 =
     (let R = 6371;
          dLat = (lat2 - lat1) * pi / 180;
          dLon = (lon2 - lon1) * pi / 180;
          a = sin (dLat / 2) * sin (dLat / 2) +
              cos (lat1 * pi / 180) * cos (lat2 * pi / 180) *
              sin (dLon / 2) * sin (dLon / 2);
          c = 2 * atan2 (sqrt a) (sqrt (1 - a))
      in R * c)"

record gemini_reply =
  gm_latitude :: "real option"
  gm_longitude :: "real option"
  gm_district :: jsvalue
  gm_taluka :: jsvalue
  gm_confidence_score :: "real option"

record geocoded =
  gg_latitude :: real
  gg_longitude :: real
  gg_formatted_address :: jsvalue
  gg_district :: jsvalue
  gg_taluka :: jsvalue

datatype geocoding =
    Raised error          \<comment> \<open>\<open>geocodeVillage\<close> threw\<close>
  | Unsuccessful          \<comment> \<open>\<open>success: false\<close>, status \<open>not_found\<close>\<close>
  | Geocoded geocoded     \<comment> \<open>\<open>success: true\<close>\<close>

datatype coordinate_source =
    google_maps_verified
  | google_maps_high_confidence
  | gemini_high_confidence
  | gemini_only

datatype alternative = GeminiCoords gemini_reply | GoogleCoords geocoded

record coordinates =
  latitude :: real
  longitude :: real
  district :: jsvalue
  taluka :: jsvalue
  coordinate_source :: coordinate_source
  gemini_coordinates :: "gemini_reply option"
  alternative_coordinates :: "alternative option"
  coordinate_distance_km :: "real option"
  confidence_score :: real

definition num_or :: "real option \<Rightarrow> real \<Rightarrow> real" where
  \<comment> \<open>\<open>x || d\<close> for a number that may be absent: 0 is falsy\<close>
  "num_or x d = (case x of Some v \<Rightarrow> if v \<noteq> 0 then v else d | None \<Rightarrow> d)"

definition google_confidence :: real where
  \<comment> \<open>\<open>googleCoords.confidence_score || 0.8\<close>: the result of \<open>geocodeVillage\<close> has no
      \<open>confidence_score\<close>\<close>
  "google_confidence = num_or None 0.8"

definition getPerfectCoordinatesWithGemini ::
  "jsvalue \<Rightarrow> gemini_reply \<Rightarrow> geocoding \<Rightarrow> jsstring + coordinates" where
  "getPerfectCoordinatesWithGemini district_arg coordinateData googleMapsResult =
     (case (gm_latitude coordinateData, gm_longitude coordinateData) of
        (Some lat, Some lon) \<Rightarrow>
          if lat \<noteq> 0 \<and> lon \<noteq> 0 then
            (case googleMapsResult of
               Geocoded googleCoords \<Rightarrow>
                 (let distance = calculateDistance lat lon
                                   (gg_latitude googleCoords) (gg_longitude googleCoords)
                  in if distance \<le> 10 then
                       Inr \<lparr>latitude = gg_latitude googleCoords,
                            longitude = gg_longitude googleCoords,
                            district = or_else (gg_district googleCoords) district_arg,
                            taluka = gg_taluka googleCoords,
                            coordinate_source = google_maps_verified,
                            gemini_coordinates = Some coordinateData,
                            alternative_coordinates = None,
                            coordinate_distance_km = Some distance,
                            confidence_score =
                              max google_confidence
                                  (num_or (gm_confidence_score coordinateData) 0.7)\<rparr>
                     else
                       (let useGoogleMaps =
                              (num_or (gm_confidence_score coordinateData) 0.7 < google_confidence)
                        in if useGoogleMaps then
                             Inr \<lparr>latitude = gg_latitude googleCoords,
                                  longitude = gg_longitude googleCoords,
                                  district = or_else (gg_district googleCoords) district_arg,
                                  taluka = gg_taluka googleCoords,
                                  coordinate_source = google_maps_high_confidence,
                                  gemini_coordinates = None,
                                  alternative_coordinates = Some (GeminiCoords coordinateData),
                                  coordinate_distance_km = Some distance,
                                  confidence_score = num_or None 0.7\<rparr>
                           else
                             Inr \<lparr>latitude = lat,
                                  longitude = lon,
                                  district = or_else (gm_district coordinateData) district_arg,
                                  taluka = gm_taluka coordinateData,
                                  coordinate_source = gemini_high_confidence,
                                  gemini_coordinates = None,
                                  alternative_coordinates = Some (GoogleCoords googleCoords),
                                  coordinate_distance_km = Some distance,
                                  confidence_score =
                                    num_or (gm_confidence_score coordinateData) 0.7\<rparr>))
             | _ \<Rightarrow>
                 Inr \<lparr>latitude = lat,
                      longitude = lon,
                      district = or_else (gm_district coordinateData) district_arg,
                      taluka = gm_taluka coordinateData,
                      coordinate_source = gemini_only,
                      gemini_coordinates = None,
                      alternative_coordinates = None,
                      coordinate_distance_km = None,
                      confidence_score = num_or (gm_confidence_score coordinateData) 0.6\<rparr>)
          else Inl (js ''Gemini could not provide reliable coordinates'')
      | _ \<Rightarrow> Inl (js ''Gemini could not provide reliable coordinates''))"

definition gemini_sample :: "real \<Rightarrow> real \<Rightarrow> real option \<Rightarrow> gemini_reply" where
  "gemini_sample lat lon c =
     \<lparr>gm_latitude = Some lat, gm_longitude = Some lon, gm_district = JStr (js ''Rajkot''),
      gm_taluka = JNull, gm_confidence_score = c\<rparr>"

definition google_sample :: "real \<Rightarrow> real \<Rightarrow> geocoded" where
  "google_sample lat lon =
     \<lparr>gg_latitude = lat, gg_longitude = lon,
      gg_formatted_address = JStr (js ''Ribda, Gujarat, India''),
      gg_district = JStr (js ''Rajkot''), gg_taluka = JNull\<rparr>"

section \<open>Dates\<close>

text \<open>
  A \<open>Date\<close> holds a time value, milliseconds since the epoch in UTC. \<open>new Date(y, m, d)\<close>
  reads its arguments as local time; the offset of local time from UTC belongs to the
  machine the process runs on and is an input of the model: \<open>tza t\<close> is the offset in
  milliseconds that applies at local time \<open>t\<close>. \<open>toISOString\<close> prints UTC.
\<close>

definition msPerDay :: int where
  "msPerDay = 86400000"

definition days_from_civil :: "int \<Rightarrow> int \<Rightarrow> int \<Rightarrow> int" where
  \<comment> \<open>the day number of a date of the proleptic Gregorian calendar, month from 1 to 12\<close>
  "days_from_civil y m d =
     (let y' = (if m \<le> 2 then y - 1 else y);
          era = y' div 400;
          yoe = y' - era * 400;
          doy = (153 * (if 2 < m then m - 3 else m + 9) + 2) div 5 + d - 1;
          doe = yoe * 365 + yoe div 4 - yoe div 100 + doy
      in era * 146097 + doe - 719468)"

definition civil_from_days :: "int \<Rightarrow> int \<times> int \<times> int" where
  \<comment> \<open>year, month from 1 to 12 and day of a day number\<close>
  "civil_from_days z0 =
     (let z = z0 + 719468;
          era = z div 146097;
          doe = z - era * 146097;
          yoe = (doe - doe div 1460 + doe div 36524 - doe div 146096) div 365;
          y = yoe + era * 400;
          doy = doe - (365 * yoe + yoe div 4 - yoe div 100);
          mp = (5 * doy + 2) div 153;
          d = doy - (153 * mp + 2) div 5 + 1;
          m = (if mp < 10 then mp + 3 else mp - 9)
      in (if m \<le> 2 then y + 1 else y, m, d))"

definition MakeDay :: "int \<Rightarrow> int \<Rightarrow> int \<Rightarrow> int" where
  \<comment> \<open>month counted from 0, and any integer\<close>
  "MakeDay year month date =
     days_from_civil (year + month div 12) (month mod 12 + 1) 1 + date - 1"

definition TimeClip :: "int \<Rightarrow> int option" where
  "TimeClip t = (if \<bar>t\<bar> \<le> 8640000000000000 then Some t else None)"

definition new_Date ::
  "(int \<Rightarrow> int) \<Rightarrow> int option \<Rightarrow> int option \<Rightarrow> int option \<Rightarrow> int option" where
  \<comment> \<open>\<open>new Date(year, month, day)\<close> on integers or \<open>NaN\<close>; \<open>None\<close> is the invalid date\<close>
  "new_Date tza year month day =
     (case (year, month, day) of
        (Some y, Some m, Some d) \<Rightarrow>
          (let yr = (if 0 \<le> y \<and> y \<le> 99 then 1900 + y else y);
               t = MakeDay yr m d * msPerDay
           in TimeClip (t - tza t))
      | _ \<Rightarrow> None)"

definition radix_digit :: "nat \<Rightarrow> unit16 \<Rightarrow> nat option" where
  "radix_digit radix c =
     (case hex_val c of Some v \<Rightarrow> if v < radix then Some v else None | None \<Rightarrow> None)"

definition parseInt :: "jsstring \<Rightarrow> int option" where
  \<comment> \<open>\<open>parseInt(s)\<close> without a radix; \<open>None\<close> is \<open>NaN\<close>\<close>
  "parseInt s =
     (let s1 = dropWhile white_space s;
          (neg, s2) = (case s1 of
                         c # r \<Rightarrow> if c = 0x2D then (True, r)
                                  else if c = 0x2B then (False, r) else (False, s1)
                       | [] \<Rightarrow> (False, s1));
          (radix, s3) = (case s2 of
                           a # b # r \<Rightarrow> if a = 0x30 \<and> (b = 0x78 \<or> b = 0x58) then (16, r)
                                        else (10, s2)
                         | _ \<Rightarrow> (10, s2));
          ds = takeWhile (\<lambda>c. radix_digit radix c \<noteq> None) s3;
          n = foldl (\<lambda>a c. int radix * a + int (the (radix_digit radix c))) 0 ds
      in if ds = [] then None else Some (if neg then - n else n))"

fun split_on :: "unit16 \<Rightarrow> jsstring \<Rightarrow> jsstring list" where
  "split_on sep [] = [[]]"
| "split_on sep (c # cs) =
     (if c = sep then [] # split_on sep cs
      else case split_on sep cs of p # ps \<Rightarrow> (c # p) # ps | [] \<Rightarrow> [[c]])"

definition pad :: "nat \<Rightarrow> int \<Rightarrow> jsstring" where
  \<comment> \<open>the decimal digits of a number that is not negative, with zeros in front\<close>
  "pad w n = replicate (w - length (dec n)) 0x30 @ dec n"

definition toISOString :: "int \<Rightarrow> jsstring" where
  \<comment> \<open>\<open>YYYY-MM-DDTHH:mm:ss.sssZ\<close>, the year with a sign and six digits outside 0 to 9999\<close>
  "toISOString t =
     (let (y, m, d) = civil_from_days (t div msPerDay);
          ms = t mod msPerDay
      in (if 0 \<le> y \<and> y \<le> 9999 then pad 4 y
          else (if y < 0 then js ''-'' else js ''+'') @ pad 6 \<bar>y\<bar>) @
         js ''-'' @ pad 2 m @ js ''-'' @ pad 2 d @ js ''T'' @
         pad 2 (ms div 3600000) @ js '':'' @ pad 2 (ms div 60000 mod 60) @
         js '':'' @ pad 2 (ms div 1000 mod 60) @ js ''.'' @ pad 3 (ms mod 1000) @
         js ''Z'')"

section \<open>The persistence adapter\<close>

text \<open>
  The document store holds two collections, each a list of documents under their
  identifiers. In the functions that write and read a notice it is reliable: a call fails
  only where the driver refuses its argument (\<open>undefined\<close> or an invalid or out-of-range
  date inside a document) or where the document to update is missing. For
  \<open>deletePropertyNotice\<close> the calls that the store rejects are an input, so that the state
  a failure leaves behind is part of the model; a rejected call changes nothing in the store.
  A stored timestamp is the time value it was made from. Fresh identifiers and the current
  time are inputs.
\<close>

record store =
  property_notices :: "(jsstring \<times> jsvalue) list"
  processing_logs :: "(jsstring \<times> jsvalue) list"

fun firestore_valid :: "jsvalue \<Rightarrow> bool" where
  "firestore_valid JUndefined = False"
| "firestore_valid (JDate d) =
     (case d of None \<Rightarrow> False
      | Some t \<Rightarrow> - 62135596800000 \<le> t \<and> t < 253402300800000)"
| "firestore_valid (JArr xs) = list_all firestore_valid xs"
| "firestore_valid (JObj kvs) = list_all (\<lambda>kv. firestore_valid (snd kv)) kvs"
| "firestore_valid v = True"

definition doc_set ::
  "jsstring \<Rightarrow> jsvalue \<Rightarrow> (jsstring \<times> jsvalue) list \<Rightarrow> error + (jsstring \<times> jsvalue) list" where
  \<comment> \<open>\<open>collection.doc(id).set(data)\<close>\<close>
  "doc_set docId d coll =
     (if firestore_valid d then Inr (put docId d coll)
      else Inl (Error (js ''Cannot use this value as a Firestore value'')))"

definition doc_update ::
  "jsstring \<Rightarrow> (jsstring \<times> jsvalue) list \<Rightarrow> (jsstring \<times> jsvalue) list \<Rightarrow>
   error + (jsstring \<times> jsvalue) list" where
  \<comment> \<open>\<open>collection.doc(id).update(updates)\<close>\<close>
  "doc_update docId updates coll =
     (case map_of coll docId of
        None \<Rightarrow> Inl (Error (js ''NOT_FOUND: No document to update''))
      | Some d \<Rightarrow>
          if firestore_valid (JObj updates)
          then Inr (put docId (JObj (puts updates (own_props d))) coll)
          else Inl (Error (js ''Cannot use this value as a Firestore value'')))"

definition doc_delete :: "jsstring \<Rightarrow> (jsstring \<times> jsvalue) list \<Rightarrow> (jsstring \<times> jsvalue) list" where
  \<comment> \<open>\<open>collection.doc(id).delete()\<close>\<close>
  "doc_delete docId coll = filter (\<lambda>kv. fst kv \<noteq> docId) coll"

definition batch_commit ::
  "jsstring list \<Rightarrow> (jsstring \<times> jsvalue) list \<Rightarrow> (jsstring \<times> jsvalue) list" where
  \<comment> \<open>a batch of deletions: its commit removes all the documents named, in one step\<close>
  "batch_commit refs coll = filter (\<lambda>kv. fst kv \<notin> set refs) coll"

definition default_to :: "jsvalue \<Rightarrow> jsvalue \<Rightarrow> jsvalue" where
  \<comment> \<open>a default of a destructuring pattern or of a parameter: it replaces \<open>undefined\<close> only\<close>
  "default_to v d = (if v = JUndefined then d else v)"

definition logProcessingStep ::
  "jsstring \<Rightarrow> jsstring \<Rightarrow> int \<Rightarrow> jsstring \<Rightarrow> jsstring \<Rightarrow> jsstring \<Rightarrow> jsvalue \<Rightarrow> jsvalue \<Rightarrow>
   store \<Rightarrow> store" where
  \<comment> \<open>a failure of the write is logged and swallowed\<close>
  "logProcessingStep logDoc logId now propertyNoticeId step stat errorMessage processingTimeMs st =
     (let logData = JObj
            [(js ''id'', JStr logId),
             (js ''property_notice_id'', JStr propertyNoticeId),
             (js ''processing_step'', JStr step),
             (js ''status'', JStr stat),
             (js ''error_message'', default_to errorMessage JNull),
             (js ''processing_time_ms'', default_to processingTimeMs JNull),
             (js ''created_at'', JDate (Some now))]
      in case doc_set logDoc logData (processing_logs st) of
           Inr logs \<Rightarrow> st\<lparr>processing_logs := logs\<rparr>
         | Inl e \<Rightarrow> st)"

definition parse_notice_date :: "(int \<Rightarrow> int) \<Rightarrow> jsvalue \<Rightarrow> error + jsvalue" where
  \<comment> \<open>the conversion of \<open>notice_date\<close> in \<open>savePropertyNotice\<close>\<close>
  "parse_notice_date tza notice_date =
     (if \<not> truthy notice_date then Inr JNull
      else case notice_date of
             JStr s \<Rightarrow>
               (let dateParts = split_on 0x2F s
                in if length dateParts = 3
                   then (let day = parseInt (dateParts ! 0);
                             month = map_option (\<lambda>m. m - 1) (parseInt (dateParts ! 1));
                             year = parseInt (dateParts ! 2)
                         in Inr (JDate (new_Date tza year month day)))
                   else Inr JNull)
           | _ \<Rightarrow> Inl (TypeError (js ''extracted_data.notice_date.split is not a function'')))"

definition iso_date_part :: "jsvalue \<Rightarrow> error + jsvalue" where
  \<comment> \<open>\<open>d ? d.toISOString().split('T')[0] : null\<close> for a date or \<open>null\<close>\<close>
  "iso_date_part d =
     (if \<not> truthy d then Inr JNull
      else case d of
             JDate (Some t) \<Rightarrow> Inr (JStr (hd (split_on 0x54 (toISOString t))))
           | JDate None \<Rightarrow> Inl RangeError
           | _ \<Rightarrow> Inl (TypeError (js ''toDate is not a function'')))"

definition iso_timestamp :: "jsvalue \<Rightarrow> error + jsvalue" where
  \<comment> \<open>\<open>t?.toDate().toISOString()\<close>\<close>
  "iso_timestamp t =
     (if t = JUndefined \<or> t = JNull then Inr JUndefined
      else case t of
             JDate (Some ms) \<Rightarrow> Inr (JStr (toISOString ms))
           | JDate None \<Rightarrow> Inl RangeError
           | _ \<Rightarrow> Inl (TypeError (js ''toDate is not a function'')))"

definition save_try ::
  "(int \<Rightarrow> int) \<Rightarrow> jsstring \<Rightarrow> jsstring \<Rightarrow> jsstring \<Rightarrow> int \<Rightarrow> store \<Rightarrow> jsvalue \<Rightarrow>
   error + (jsvalue \<times> store)" where
  \<comment> \<open>the \<open>try\<close> block of \<open>savePropertyNotice\<close>\<close>
  "save_try tza newId logDoc logId now st extractedData =
     (case getprop extractedData (js ''extracted_data'') of
        Inl e \<Rightarrow> Inl e
      | Inr extracted_data \<Rightarrow>
          (let raw_text = get extractedData (js ''raw_text'');
               confidence_score = get extractedData (js ''confidence_score'');
               processing_time_ms = get extractedData (js ''processing_time_ms'');
               processing_status =
                 default_to (get extractedData (js ''processing_status'')) (JStr (js ''completed''));
               ai_service =
                 default_to (get extractedData (js ''ai_service''))
                   (JStr (js ''firebase_integration''));
               filename = get extractedData (js ''filename'')
           in case getprop extracted_data (js ''notice_date'') of
                Inl e \<Rightarrow> Inl e
              | Inr notice_date \<Rightarrow>
                  (case parse_notice_date tza notice_date of
                     Inl e \<Rightarrow> Inl e
                   | Inr noticeDate \<Rightarrow>
                       (let docData =
                              [(js ''id'', JStr newId),
                               (js ''village_name'',
                                  or_else (get extracted_data (js ''village_name'')) JNull),
                               (js ''survey_number'',
                                  or_else (get extracted_data (js ''survey_number'')) JNull),
                               (js ''buyer_name'',
                                  or_else (get extracted_data (js ''buyer_name'')) JNull),
                               (js ''seller_name'',
                                  or_else (get extracted_data (js ''seller_name'')) JNull),
                               (js ''notice_date'', noticeDate),
                               (js ''advocate_name'',
                                  or_else (get extracted_data (js ''advocate_name'')) JNull),
                               (js ''advocate_address'',
                                  or_else (get extracted_data (js ''advocate_address'')) JNull),
                               (js ''advocate_mobile'',
                                  or_else (get extracted_data (js ''advocate_mobile'')) JNull),
                               (js ''raw_text'', raw_text),
                               (js ''extracted_data'', extracted_data),
                               (js ''confidence_score'', or_else confidence_score JNull),
                               (js ''processing_status'', processing_status),
                               (js ''ai_service'', ai_service),
                               (js ''filename'', or_else filename JNull),
                               (js ''latitude'',
                                  or_else (get extracted_data (js ''latitude'')) JNull),
                               (js ''longitude'',
                                  or_else (get extracted_data (js ''longitude'')) JNull),
                               (js ''district'',
                                  or_else (get extracted_data (js ''district'')) JNull),
                               (js ''taluka'',
                                  or_else (get extracted_data (js ''taluka'')) JNull),
                               (js ''full_address'',
                                  or_else (get extracted_data (js ''full_address'')) JNull),
                               (js ''geocoding_status'',
                                  or_else (get extracted_data (js ''geocoding_status''))
                                    (JStr (js ''pending''))),
                               (js ''uploaded_at'', JDate (Some now)),
                               (js ''updated_at'', JDate (Some now)),
                               (js ''processing_time_ms'', or_else processing_time_ms JNull)]
                        in case doc_set newId (JObj docData) (property_notices st) of
                             Inl e \<Rightarrow> Inl e
                           | Inr notices \<Rightarrow>
                               (let st1 = logProcessingStep logDoc logId now newId
                                            (js ''EXTRACTION_COMPLETED'') (js ''success'') JNull
                                            processing_time_ms
                                            (st\<lparr>property_notices := notices\<rparr>)
                                in case iso_date_part noticeDate of
                                     Inl e \<Rightarrow> Inl e
                                   | Inr date_text \<Rightarrow>
                                       Inr (JObj (puts
                                              [(js ''uploaded_at'', JStr (toISOString now)),
                                               (js ''updated_at'', JStr (toISOString now)),
                                               (js ''notice_date'', date_text)]
                                              docData), st1))))))"

definition savePropertyNotice ::
  "(int \<Rightarrow> int) \<Rightarrow> jsstring \<Rightarrow> jsstring \<Rightarrow> jsstring \<Rightarrow> int \<Rightarrow> store \<Rightarrow> jsvalue \<Rightarrow>
   error + (jsvalue \<times> store)" where
  \<comment> \<open>\<open>newId\<close> and \<open>logId\<close> are the two identifiers drawn, \<open>logDoc\<close> the identifier the store
      gives the log entry, \<open>now\<close> the current time\<close>
  "savePropertyNotice tza newId logDoc logId now st extractedData =
     (case save_try tza newId logDoc logId now st extractedData of
        Inr r \<Rightarrow> Inr r
      | Inl error \<Rightarrow> Inl (Error (js ''Database save failed: '' @ message error)))"

definition getPropertyNoticeById :: "store \<Rightarrow> jsstring \<Rightarrow> error + jsvalue" where
  \<comment> \<open>\<open>null\<close> when there is no such document\<close>
  "getPropertyNoticeById st noticeId =
     (case map_of (property_notices st) noticeId of
        None \<Rightarrow> Inr JNull
      | Some d \<Rightarrow>
          (case (iso_timestamp (get d (js ''uploaded_at'')),
                 iso_timestamp (get d (js ''updated_at'')),
                 iso_date_part (get d (js ''notice_date''))) of
             (Inr uploaded_at, Inr updated_at, Inr notice_date) \<Rightarrow>
               Inr (JObj (puts [(js ''uploaded_at'', uploaded_at),
                                (js ''updated_at'', updated_at),
                                (js ''notice_date'', notice_date)]
                            (puts (own_props d) [(js ''id'', JStr noticeId)])))
           | (Inl e, _, _) \<Rightarrow> Inl (Error (js ''Database fetch failed: '' @ message e))
           | (_, Inl e, _) \<Rightarrow> Inl (Error (js ''Database fetch failed: '' @ message e))
           | (_, _, Inl e) \<Rightarrow> Inl (Error (js ''Database fetch failed: '' @ message e))))"

datatype store_call =
    Init          \<comment> \<open>\<open>initializeFirebase()\<close>, called when \<open>db\<close> is not set\<close>
  | DocGet        \<comment> \<open>\<open>docRef.get()\<close>\<close>
  | DocDelete     \<comment> \<open>\<open>docRef.delete()\<close>\<close>
  | LogsQuery     \<comment> \<open>\<open>logsQuery.get()\<close>\<close>
  | BatchCommit   \<comment> \<open>\<open>batch.commit()\<close>\<close>

definition delete_failed :: "error \<Rightarrow> error + bool" where
  \<comment> \<open>the \<open>catch\<close> block\<close>
  "delete_failed e = Inl (Error (js ''Database delete failed: '' @ message e))"

definition deletePropertyNotice ::
  "(store_call \<Rightarrow> error option) \<Rightarrow> store \<Rightarrow> jsstring \<Rightarrow> (error + bool) \<times> store" where
  \<comment> \<open>\<open>rejects c\<close> is the error with which the store rejects the call \<open>c\<close>, if it does; the
      result is what the function returns or raises, and the store it leaves\<close>
  "deletePropertyNotice rejects st noticeId =
     (case rejects Init of
        Some e \<Rightarrow> (delete_failed e, st)
      | None \<Rightarrow>
     (case rejects DocGet of
        Some e \<Rightarrow> (delete_failed e, st)
      | None \<Rightarrow>
     (case map_of (property_notices st) noticeId of
        None \<Rightarrow> (Inr False, st)
      | Some d \<Rightarrow>
     (case rejects DocDelete of
        Some e \<Rightarrow> (delete_failed e, st)
      | None \<Rightarrow>
          (let st1 = st\<lparr>property_notices := doc_delete noticeId (property_notices st)\<rparr>
           in case rejects LogsQuery of
                Some e \<Rightarrow> (delete_failed e, st1)
              | None \<Rightarrow>
                  (let logsSnapshot =
                         filter (\<lambda>kv. get (snd kv) (js ''property_notice_id'') = JStr noticeId)
                           (processing_logs st1);
                       batch = map fst logsSnapshot
                   in case rejects BatchCommit of
                        Some e \<Rightarrow> (delete_failed e, st1)
                      | None \<Rightarrow>
                          (Inr True,
                           st1\<lparr>processing_logs :=
                                 batch_commit batch (processing_logs st1)\<rparr>)))))))"

definition updatePropertyNoticeLocation ::
  "int \<Rightarrow> store \<Rightarrow> jsstring \<Rightarrow> jsvalue \<Rightarrow> error + store" where
  "updatePropertyNoticeLocation now st noticeId locationData =
     (let updates =
            [(js ''latitude'', or_else (get locationData (js ''latitude'')) JNull),
             (js ''longitude'', or_else (get locationData (js ''longitude'')) JNull),
             (js ''district'', or_else (get locationData (js ''district'')) JNull),
             (js ''taluka'', or_else (get locationData (js ''taluka'')) JNull),
             (js ''full_address'', or_else (get locationData (js ''formatted_address'')) JNull),
             (js ''geocoding_status'',
                or_else (get locationData (js ''status'')) (JStr (js ''completed''))),
             (js ''updated_at'', JDate (Some now))]
      in case doc_update noticeId updates (property_notices st) of
           Inl e \<Rightarrow> Inl (Error (js ''Location update failed: '' @ message e))
         | Inr notices \<Rightarrow> Inr (st\<lparr>property_notices := notices\<rparr>))"

section \<open>The routes of the server\<close>

record response =
  status_code :: nat
  body :: jsvalue

text \<open>
  The route cleans the village name with seven \<open>replace\<close> calls before it geocodes it.
  In the file of the server the Gujarati letters of their patterns are encoded twice: each
  byte of the UTF-8 form of a letter stands as the character that Windows-1252 gives it
  (U+0AB0 is \<open>E0 AA B0\<close>, which reads U+00E0 U+00AA U+00B0), and a byte that has no
  character there (\<open>81\<close>, \<open>8D\<close>) is missing. The patterns below have the code units of the
  file. With the \<open>i\<close> flag a code unit of a pattern matches the code units that have its
  upper case: U+00E0 also U+00C0, and U+00B5 also U+039C and U+03BC; the other code units
  of the two patterns with that flag have no case.
\<close>

definition route_revenue :: jsstring where
  "route_revenue = [0xE0, 0xAA, 0xB0, 0xE0, 0xAB, 0x2021, 0xE0, 0xAA, 0xB5, 0xE0, 0xAA, 0xA8,
                    0xE0, 0xAB, 0xE0, 0xAA, 0xAF, 0xE0, 0xAB]"

definition route_survey :: jsstring where
  "route_survey = [0xE0, 0xAA, 0xB8, 0xE0, 0xAA, 0xB0, 0xE0, 0xAB, 0xE0, 0xAA, 0xB5,
                   0xE0, 0xAB, 0x2021]"

definition route_nam :: jsstring where
  "route_nam = [0xE0, 0xAA, 0xA8, 0xE0, 0xAA, 0x201A]"

definition route_naa :: jsstring where
  "route_naa = [0xE0, 0xAA, 0xA8, 0xE0, 0xAA, 0xBE]"

definition route_nii :: jsstring where
  "route_nii = [0xE0, 0xAA, 0xA8, 0xE0, 0xAB, 0x20AC]"

definition route_nun :: jsstring where
  "route_nun = [0xE0, 0xAA, 0xA8, 0xE0, 0xAB, 0xE0, 0xAA, 0x201A]"

definition route_gam :: jsstring where
  "route_gam = [0xE0, 0xAA, 0x2014, 0xE0, 0xAA, 0xBE, 0xE0, 0xAA, 0xAE]"

definition route_moje :: jsstring where
  "route_moje = [0xE0, 0xAA, 0xAE, 0xE0, 0xAB, 0x2039, 0xE0, 0xAA, 0x0153, 0xE0, 0xAB, 0x2021]"

definition same_case :: "unit16 \<Rightarrow> cls" where
  \<comment> \<open>the code units that a code unit of these patterns matches under the \<open>i\<close> flag\<close>
  "same_case c =
     (if c = 0xE0 then Union (Ch 0xE0) (Ch 0xC0)
      else if c = 0xB5 then Union (Ch 0xB5) (Union (Ch 0x039C) (Ch 0x03BC))
      else Ch c)"

definition lit_i :: "jsstring \<Rightarrow> regex" where
  \<comment> \<open>a literal under the \<open>i\<close> flag\<close>
  "lit_i w = seqs (map (\<lambda>c. Cls (same_case c)) w)"

definition route_revenue_survey_pattern :: regex where
  \<comment> \<open>the first pattern, flags \<open>gi\<close>\<close>
  "route_revenue_survey_pattern =
     seqs [Star (Cls Space), lit_i route_revenue, Star (Cls Space), lit_i route_survey,
           Star (Cls Space), lit_i route_nam, Star (Cls Dot), Eol]"

definition route_survey_pattern :: regex where
  \<comment> \<open>the second pattern, flags \<open>gi\<close>\<close>
  "route_survey_pattern =
     seqs [Star (Cls Space), lit_i route_survey, Star (Cls Space), lit_i route_nam,
           Star (Cls Dot), Eol]"

definition save_notice_clean :: "jsstring \<Rightarrow> jsstring" where
  \<comment> \<open>the chain of \<open>replace\<close> calls of the route and its \<open>trim\<close>\<close>
  "save_notice_clean s =
     trim (replace_first
             (seqs [Bol, Lit route_moje, Plus (Cls Space), Lit route_gam, Plus (Cls Space)]) []
       (replace_first (seqs [Bol, Lit route_gam, Plus (Cls Space)]) []
         (replace_first (seqs [Lit route_nun, Star (Cls Space), Eol]) []
           (replace_first (seqs [Lit route_nii, Star (Cls Space), Eol]) []
             (replace_first (seqs [Lit route_naa, Star (Cls Space), Eol]) []
               (replace_all route_survey_pattern []
                 (replace_all route_revenue_survey_pattern [] s)))))))"

definition auto_geocode ::
  "(jsstring \<Rightarrow> jsvalue \<Rightarrow> geocoding) \<Rightarrow> int \<Rightarrow> store \<Rightarrow> jsvalue \<Rightarrow> jsvalue \<Rightarrow> store" where
  \<comment> \<open>the inner \<open>try\<close> of the route: whatever is raised in it is logged and dropped.
      \<open>geocodeVillage\<close> is the outcome of the geocoding service for a query\<close>
  "auto_geocode geocodeVillage now st savedRecord extractedData =
     (case get extractedData (js ''village_name'') of
        JStr name \<Rightarrow>
          (let villageName = save_notice_clean name
           in if 2 \<le> length villageName then
                (case geocodeVillage villageName
                        (or_else (get extractedData (js ''district'')) (JStr (js ''Rajkot''))) of
                   Geocoded locationData \<Rightarrow>
                     (case get savedRecord (js ''id'') of
                        JStr savedId \<Rightarrow>
                          (case updatePropertyNoticeLocation now st savedId
                                  (JObj
                                    [(js ''latitude'', JNum (gg_latitude locationData)),
                                     (js ''longitude'', JNum (gg_longitude locationData)),
                                     (js ''district'',
                                        or_else (gg_district locationData)
                                          (get extractedData (js ''district''))),
                                     (js ''taluka'',
                                        or_else (gg_taluka locationData)
                                          (get extractedData (js ''taluka''))),
                                     (js ''formatted_address'', gg_formatted_address locationData),
                                     (js ''status'', JStr (js ''success''))]) of
                             Inr st' \<Rightarrow> st'
                           | Inl e \<Rightarrow> st)
                      | _ \<Rightarrow> st)
                 | Unsuccessful \<Rightarrow> st
                 | Raised e \<Rightarrow> st)
              else st)
      | _ \<Rightarrow> st)"

definition make_dataToSave :: "jsvalue \<Rightarrow> jsvalue \<Rightarrow> jsvalue" where
  \<comment> \<open>the object \<open>dataToSave\<close> of the route\<close>
  "make_dataToSave req_body extractedData =
     JObj [(js ''raw_text'', get req_body (js ''rawText'')),
           (js ''extracted_data'', extractedData),
           (js ''confidence_score'', get req_body (js ''confidenceScore'')),
           (js ''processing_time_ms'', get req_body (js ''processingTime'')),
           (js ''processing_status'', JStr (js ''completed'')),
           (js ''ai_service'',
              or_else (get req_body (js ''aiService'')) (JStr (js ''google_vision_and_gemini''))),
           (js ''filename'', get req_body (js ''filename''))]"

definition save_notice ::
  "(int \<Rightarrow> int) \<Rightarrow> jsstring \<Rightarrow> jsstring \<Rightarrow> jsstring \<Rightarrow> int \<Rightarrow> int \<Rightarrow>
   (jsstring \<Rightarrow> jsvalue \<Rightarrow> geocoding) \<Rightarrow> store \<Rightarrow> jsvalue \<Rightarrow> response \<times> store" where
  \<comment> \<open>\<open>POST /api/save-notice\<close> on the request body; \<open>now\<close> is the time of the save, \<open>later\<close> the
      time of the update of the location\<close>
  "save_notice tza newId logDoc logId now later geocodeVillage st req_body =
     (case getprop req_body (js ''extractedData'') of
        Inl error \<Rightarrow>
          (\<lparr>status_code = 500,
            body = JObj [(js ''error'', JStr (js ''Failed to save property notice'')),
                         (js ''message'', JStr (message error)),
                         (js ''code'', JStr (js ''SAVE_ERROR''))]\<rparr>, st)
      | Inr extractedData \<Rightarrow>
          if \<not> truthy extractedData then
            (\<lparr>status_code = 400,
              body = JObj [(js ''error'', JStr (js ''Extracted data is required'')),
                           (js ''code'', JStr (js ''MISSING_EXTRACTED_DATA''))]\<rparr>, st)
          else
            (let dataToSave = make_dataToSave req_body extractedData
             in case savePropertyNotice tza newId logDoc logId now st dataToSave of
                  Inl error \<Rightarrow>
                    (\<lparr>status_code = 500,
                      body = JObj [(js ''error'', JStr (js ''Failed to save property notice'')),
                                   (js ''message'', JStr (message error)),
                                   (js ''code'', JStr (js ''SAVE_ERROR''))]\<rparr>, st)
                | Inr (savedRecord, st1) \<Rightarrow>
                    (let st2 = (if truthy (get extractedData (js ''village_name''))
                                then auto_geocode geocodeVillage later st1 savedRecord extractedData
                                else st1)
                     in (\<lparr>status_code = 200,
                          body = JObj
                            [(js ''success'', JBool True),
                             (js ''message'',
                                JStr (js ''Property notice saved to database successfully'')),
                             (js ''data'', JObj
                                [(js ''id'', get savedRecord (js ''id'')),
                                 (js ''extractedData'',
                                    or_else (get savedRecord (js ''extracted_data''))
                                      extractedData),
                                 (js ''uploadedAt'',
                                    or_else (get savedRecord (js ''uploaded_at''))
                                      (JStr (toISOString later)))])]\<rparr>,
                         st2))))"

definition get_notice :: "store \<Rightarrow> jsstring \<Rightarrow> response" where
  \<comment> \<open>\<open>GET /api/notices/:id\<close>\<close>
  "get_notice st noticeId =
     (case getPropertyNoticeById st noticeId of
        Inl error \<Rightarrow>
          \<lparr>status_code = 500,
           body = JObj [(js ''error'', JStr (js ''Failed to fetch property notice'')),
                        (js ''message'', JStr (message error))]\<rparr>
      | Inr notice \<Rightarrow>
          if \<not> truthy notice then
            \<lparr>status_code = 404,
             body = JObj [(js ''error'', JStr (js ''Property notice not found'')),
                          (js ''code'', JStr (js ''NOT_FOUND''))]\<rparr>
          else \<lparr>status_code = 200,
                body = JObj [(js ''success'', JBool True), (js ''data'', notice)]\<rparr>)"

definition delete_notice ::
  "(store_call \<Rightarrow> error option) \<Rightarrow> store \<Rightarrow> jsstring \<Rightarrow> response \<times> store" where
  \<comment> \<open>\<open>DELETE /api/notices/:id\<close>\<close>
  "delete_notice rejects st noticeId =
     (if noticeId = [] then
        (\<lparr>status_code = 400,
          body = JObj [(js ''error'', JStr (js ''Notice ID is required'')),
                       (js ''code'', JStr (js ''MISSING_ID''))]\<rparr>, st)
      else case deletePropertyNotice rejects st noticeId of
             (Inl error, st') \<Rightarrow>
               (\<lparr>status_code = 500,
                 body = JObj [(js ''error'', JStr (js ''Failed to delete property notice'')),
                              (js ''message'', JStr (message error)),
                              (js ''code'', JStr (js ''DELETE_ERROR''))]\<rparr>, st')
           | (Inr deleted, st') \<Rightarrow>
               if \<not> deleted then
                 (\<lparr>status_code = 404,
                   body = JObj [(js ''error'', JStr (js ''Property notice not found'')),
                                (js ''code'', JStr (js ''NOTICE_NOT_FOUND''))]\<rparr>, st')
               else
                 (\<lparr>status_code = 200,
                   body = JObj [(js ''success'', JBool True),
                                (js ''message'', JStr (js ''Property notice deleted successfully'')),
                                (js ''data'', JObj [(js ''id'', JStr noticeId)])]\<rparr>, st'))"

subsection \<open>Environments and requests for the examples\<close>

definition kolkata :: "int \<Rightarrow> int" where
  \<comment> \<open>local time five and a half hours ahead of UTC, all year\<close>
  "kolkata t = 19800000"

definition utc :: "int \<Rightarrow> int" where
  "utc t = 0"

definition geocoder_down :: "jsstring \<Rightarrow> jsvalue \<Rightarrow> geocoding" where
  \<comment> \<open>the geocoding service cannot be reached\<close>
  "geocoder_down villageName d = Raised (Error (js ''Geocoding failed: fetch failed''))"

definition geocoder_finds_nothing :: "jsstring \<Rightarrow> jsvalue \<Rightarrow> geocoding" where
  "geocoder_finds_nothing villageName d = Unsuccessful"

definition empty_store :: store where
  "empty_store = \<lparr>property_notices = [], processing_logs = []\<rparr>"

definition notice_sample :: jsvalue where
  \<comment> \<open>the argument of \<open>savePropertyNotice\<close>\<close>
  "notice_sample =
     JObj [(js ''raw_text'', JStr (js ''notice'')),
           (js ''extracted_data'',
              JObj [(js ''village_name'', JStr (js ''Ribda'')),
                    (js ''notice_date'', JStr (js ''18/07/2025''))]),
           (js ''confidence_score'', JNum 0.9),
           (js ''processing_time_ms'', JNum 12),
           (js ''filename'', JStr (js ''notice.png''))]"

definition request_sample :: jsvalue where
  \<comment> \<open>a body of \<open>POST /api/save-notice\<close>\<close>
  "request_sample =
     JObj [(js ''extractedData'',
              JObj [(js ''village_name'', JStr (js ''Ribda'')),
                    (js ''notice_date'', JStr (js ''18/07/2025''))]),
           (js ''rawText'', JStr (js ''notice'')),
           (js ''confidenceScore'', JNum 0.9),
           (js ''processingTime'', JNum 12),
           (js ''filename'', JStr (js ''notice.png''))]"

definition stored_field :: "store \<Rightarrow> jsstring \<Rightarrow> jsstring \<Rightarrow> jsvalue" where
  \<comment> \<open>a field of a stored notice, \<open>undefined\<close> when there is no such notice\<close>
  "stored_field st noticeId k =
     (case map_of (property_notices st) noticeId of Some d \<Rightarrow> get d k | None \<Rightarrow> JUndefined)"

definition store_sample :: store where
  \<comment> \<open>one notice, one log entry of that notice and one of another\<close>
  "store_sample =
     \<lparr>property_notices =
        [(js ''id-1'', JObj [(js ''id'', JStr (js ''id-1'')),
                             (js ''village_name'', JStr (js ''Ribda''))])],
      processing_logs =
        [(js ''log-1'', JObj [(js ''property_notice_id'', JStr (js ''id-1''))]),
         (js ''log-2'', JObj [(js ''property_notice_id'', JStr (js ''id-9''))])]\<rparr>"

definition no_rejection :: "store_call \<Rightarrow> error option" where
  \<comment> \<open>the store accepts every call\<close>
  "no_rejection c = None"

definition commit_rejected :: "store_call \<Rightarrow> error option" where
  \<comment> \<open>the store accepts every call but the commit of the batch\<close>
  "commit_rejected c =
     (if c = BatchCommit then Some (Error (js ''14 UNAVAILABLE'')) else None)"
section \<open>Verified properties\<close>

subsection \<open>The matcher on strings without a match\<close>

lemma search_from_none: "(\<And>j. ends r s j = []) \<Longrightarrow> search_from r s n i = None"
  by (induction n arbitrary: i) simp_all

lemma replace_all_no_match: "(\<And>j. ends r s j = []) \<Longrightarrow> replace_all r rep s = s"
  by (simp add: replace_all_def exec_def search_from_none)

lemma ends_Seq_left: "(\<And>j. ends a s j = []) \<Longrightarrow> ends (Seq a b) s i = []"
  by simp

lemma ends_Seq_right: "(\<And>j. ends b s j = []) \<Longrightarrow> ends (Seq a b) s i = []"
  by simp

lemma not_includes_take:
  assumes "\<not> includes_js s w" and "w \<noteq> []"
  shows "take (length w) (drop i s) \<noteq> w"
proof (cases "i \<le> length s")
  case True
  then have "i \<in> set [0 ..< Suc (length s)]" by auto
  with assms(1) show ?thesis unfolding includes_js_def by blast
next
  case False
  then show ?thesis using assms(2) by simp
qed

lemma ends_Str_absent:
  "\<not> includes_js s w \<Longrightarrow> w \<noteq> [] \<Longrightarrow> ends (Lit w) s i = []"
  by (simp add: not_includes_take)

lemma geo_survey_no_match:
  assumes "\<not> includes_js s survey"
  shows "ends geo_survey s j = []"
proof -
  have "survey \<noteq> []" by (simp add: survey_def)
  with assms have "\<And>k. ends (Lit survey) s k = []" by (rule ends_Str_absent)
  then show ?thesis unfolding geo_survey_def seqs.simps by (rule ends_Seq_left)
qed

lemma geo_revenue_survey_no_match:
  assumes "\<not> includes_js s survey"
  shows "ends geo_revenue_survey s j = []"
proof -
  have "survey \<noteq> []" by (simp add: survey_def)
  with assms have a: "\<And>k. ends (Lit survey) s k = []" by (rule ends_Str_absent)
  have b: "\<And>k r. ends (Seq (Lit survey) r) s k = []" using a by (rule ends_Seq_left)
  have c: "\<And>k r q. ends (Seq q (Seq (Lit survey) r)) s k = []" using b by (rule ends_Seq_right)
  have d: "\<And>k r q p. ends (Seq p (Seq q (Seq (Lit survey) r))) s k = []" using c by (rule ends_Seq_right)
  show ?thesis unfolding geo_revenue_survey_def seqs.simps by (rule d)
qed

lemma geo_gam_prefix_no_match:
  assumes "take (length gam) s \<noteq> gam"
  shows "ends geo_gam_prefix s j = []"
  using assms by (simp add: geo_gam_prefix_def)

lemma class_run_no_match:
  assumes "\<forall>c \<in> set s. \<not> in_cls k c"
  shows "ends (Plus (Cls k)) s j = []"
proof -
  have "ends (Cls k) s j = []" using assms by (auto simp: all_set_conv_all_nth)
  then show ?thesis by (simp only: ends.simps(5) list.map concat.simps)
qed

lemma ws_run_none:
  "\<not> (i < length s \<and> white_space (s ! i)) \<Longrightarrow> ends (Plus (Cls Space)) s i = []"
  by auto

lemma ws_run_single:
  assumes "i < length s" "white_space (s ! i)"
    and "Suc i < length s \<Longrightarrow> \<not> white_space (s ! Suc i)"
  shows "ends (Plus (Cls Space)) s i = [Suc i]"
proof (cases "length s - Suc i")
  case 0
  with assms show ?thesis by simp
next
  case (Suc n)
  then have "Suc i < length s" by simp
  with assms Suc show ?thesis by simp
qed

lemma single_spaced_nth:
  "single_spaced s \<Longrightarrow> i < length s \<Longrightarrow> white_space (s ! i) \<Longrightarrow>
     s ! i = 0x20 \<and> (Suc i < length s \<longrightarrow> \<not> white_space (s ! Suc i))"
proof (induction s arbitrary: i rule: single_spaced.induct)
  case 1
  then show ?case by simp
next
  case (2 c)
  then show ?case by (simp split: if_splits)
next
  case (3 c d cs)
  show ?case
  proof (cases i)
    case 0
    with 3 show ?thesis by (simp split: if_splits)
  next
    case (Suc k)
    with 3 have "single_spaced (d # cs)" "k < length (d # cs)" "white_space ((d # cs) ! k)"
      by (simp_all split: if_splits)
    from 3(1)[OF this] Suc show ?thesis by simp
  qed
qed

lemma search_from_some:
  "search_from r s n i = Some (a, e) \<Longrightarrow> i \<le> a \<and> (\<exists>es. ends r s a = e # es)"
proof (induction n arbitrary: i)
  case 0
  then show ?case by simp
next
  case (Suc n)
  show ?case
  proof (cases "ends r s i")
    case Nil
    with Suc.prems have "search_from r s n (Suc i) = Some (a, e)" by simp
    from Suc.IH[OF this] show ?thesis by auto
  next
    case (Cons x xs)
    with Suc.prems show ?thesis by auto
  qed
qed

lemma drop_split_at:
  assumes "p \<le> a" "a < length s"
  shows "take (a - p) (drop p s) @ s ! a # drop (Suc a) s = drop p s"
proof -
  have "a - p < length (drop p s)" using assms by simp
  from id_take_nth_drop[OF this]
  show ?thesis using assms by (simp add: add.commute)
qed

lemma ws_replace_loop_id:
  assumes "single_spaced s"
  shows "replace_loop (Plus (Cls Space)) [0x20] s n p p = drop p s"
proof (induction n arbitrary: p)
  case 0
  show ?case by simp
next
  case (Suc n)
  show ?case
  proof (cases "exec (Plus (Cls Space)) s p")
    case None
    then show ?thesis by simp
  next
    case (Some m)
    obtain a e where m: "m = (a, e)" by (cases m)
    from Some m have "search_from (Plus (Cls Space)) s (Suc (length s) - p) p = Some (a, e)"
      by (simp add: exec_def)
    from search_from_some[OF this] obtain es where
      pa: "p \<le> a" and en: "ends (Plus (Cls Space)) s a = e # es" by blast
    from en ws_run_none[of a s] have al: "a < length s" and wa: "white_space (s ! a)"
      by auto
    from single_spaced_nth[OF assms al wa] have
      sp: "s ! a = 0x20" and nx: "Suc a < length s \<Longrightarrow> \<not> white_space (s ! Suc a)" by auto
    from ws_run_single[OF al wa nx] en have e: "e = Suc a" by simp
    have "replace_loop (Plus (Cls Space)) [0x20] s (Suc n) p p =
          take (a - p) (drop p s) @ [0x20] @ replace_loop (Plus (Cls Space)) [0x20] s n (Suc a) (Suc a)"
      using Some m e by simp
    also have "\<dots> = take (a - p) (drop p s) @ s ! a # drop (Suc a) s"
      using Suc.IH[of "Suc a"] sp by simp
    also have "\<dots> = drop p s" using pa al by (rule drop_split_at)
    finally show ?thesis .
  qed
qed

lemma ws_replace_all_id: "single_spaced s \<Longrightarrow> replace_all (Plus (Cls Space)) [0x20] s = s"
  unfolding replace_all_def by (simp only: ws_replace_loop_id drop_0)

lemma trim_id:
  assumes "s = [] \<or> (\<not> white_space (hd s) \<and> \<not> white_space (last s))"
  shows "trim s = s"
proof (cases s)
  case Nil
  then show ?thesis by (simp add: trim_def)
next
  case (Cons c cs)
  with assms have h: "\<not> white_space (hd s)" and l: "\<not> white_space (last s)" by auto
  from h Cons have 1: "dropWhile white_space s = s" by simp
  have sne: "s \<noteq> []" using Cons by simp
  then have "hd (rev s) = last s" by (simp add: hd_rev)
  with l have "\<not> white_space (hd (rev s))" by simp
  moreover have "rev s \<noteq> []" using sne by simp
  ultimately have 2: "dropWhile white_space (rev s) = rev s"
    by (cases "rev s") simp_all
  show ?thesis by (simp add: trim_def 1 2)
qed

lemma js_space: "js '' '' = [0x20]"
  by (simp add: js_def)

lemma strip_geocoding_clean:
  assumes "already_clean s"
  shows "strip_geocoding s = s"
proof -
  from assms have a: "\<not> includes_js s survey" and b: "take (length gam) s \<noteq> gam"
    and c: "\<forall>c \<in> set s. \<not> in_cls digits_punct c" and d: "single_spaced s"
    and e: "s = [] \<or> (\<not> white_space (hd s) \<and> \<not> white_space (last s))"
    unfolding already_clean_def by blast+
  have 1: "replace_all geo_revenue_survey [] s = s"
    using geo_revenue_survey_no_match[OF a] by (rule replace_all_no_match)
  have 2: "replace_all geo_survey [] s = s"
    using geo_survey_no_match[OF a] by (rule replace_all_no_match)
  have 3: "replace_all geo_gam_prefix [] s = s"
    using geo_gam_prefix_no_match[OF b] by (rule replace_all_no_match)
  have 4: "replace_all (Plus (Cls digits_punct)) [] s = s"
    using class_run_no_match[OF c] by (rule replace_all_no_match)
  have 5: "replace_all (Plus (Cls Space)) (js '' '') s = s"
    unfolding js_space using d by (rule ws_replace_all_id)
  show ?thesis unfolding strip_geocoding_def 1 2 3 4 5 using e by (rule trim_id)
qed

subsection \<open>The text cleaner\<close>

text \<open>
  Claim C10, as amended. The cleaner is not idempotent on every input: one pass removes
  one leading "gam" and may expose another. What holds is the second reading of the claim:
  cleaning an already-clean string returns it unchanged, where a string is already clean
  when it has no survey word, no leading "gam", no digit, dot, hyphen or slash, single
  spaces between words and no white space at either end.
\<close>

theorem cleaner_fixes_clean_strings:
  "already_clean s \<Longrightarrow> cleanVillageNameForGeocoding (JStr s) = Inr (JStr s)"
  by (simp add: cleanVillageNameForGeocoding_def strip_geocoding_clean Let_def)

theorem cleaner_fixes_clean_strings_witness:
  "already_clean (ribda @ js '' Rajkot'') \<and>
   cleanVillageNameForGeocoding (JStr (ribda @ js '' Rajkot'')) =
     Inr (JStr (ribda @ js '' Rajkot''))"
proof -
  have h: "already_clean (ribda @ js '' Rajkot'')" by code_simp
  from cleaner_fixes_clean_strings[OF h] h show ?thesis by simp
qed

text \<open>
  Claim C10 as stated fails on "gam gam Rajkot": the first pass gives "gam Rajkot", the
  second "Rajkot".
\<close>

theorem cleaner_not_idempotent_counterexample:
  "cleanVillageNameForGeocoding (JStr (gam @ js '' '' @ gam @ js '' Rajkot'')) =
     Inr (JStr (gam @ js '' Rajkot'')) \<and>
   cleanVillageNameForGeocoding (JStr (gam @ js '' Rajkot'')) = Inr (JStr (js ''Rajkot'')) \<and>
   js ''Rajkot'' \<noteq> gam @ js '' Rajkot''"
  by code_simp

lemma includes_js_length: "includes_js c w \<Longrightarrow> length w \<le> length c"
proof -
  assume "includes_js c w"
  then obtain i where "take (length w) (drop i c) = w" unfolding includes_js_def by blast
  then have "length w = length (take (length w) (drop i c))" by simp
  also have "\<dots> \<le> length c" by simp
  finally show ?thesis .
qed

lemma short_needs_no_extraction: "length c < 2 \<Longrightarrow> \<not> needs_extraction c"
  unfolding needs_extraction_def
  using includes_js_length[of c survey] includes_js_length[of c revenue]
  by (auto simp: survey_def revenue_def)

lemma postProcess_short: "length (step1 s) < 2 \<Longrightarrow> postProcess_name s = s"
  by (simp add: postProcess_name_def Let_def short_needs_no_extraction)

lemma extract_candidate_valid:
  "extract_candidate ps s = Some c \<Longrightarrow> valid_candidate c"
  by (induction ps s rule: extract_candidate.induct)
     (auto split: list.splits if_splits)

text \<open>
  Claim C9, as amended. On the empty string the cleaner returns the empty string; on a
  missing name (\<open>null\<close> or \<open>undefined\<close>) it returns the empty string too, not the input;
  it raises in neither case. Whenever removing the boilerplate leaves fewer than 2 code
  units, the original name is returned, both by the cleaner of the geocoding service and
  by Steps 3 and 4 of the post-processor.
\<close>

theorem cleaner_empty_or_short:
  "cleanVillageNameForGeocoding (JStr []) = Inr (JStr []) \<and>
   cleanVillageNameForGeocoding JNull = Inr (JStr []) \<and>
   cleanVillageNameForGeocoding JUndefined = Inr (JStr []) \<and>
   (length (strip_geocoding s) < 2 \<longrightarrow>
      cleanVillageNameForGeocoding (JStr s) = Inr (JStr s)) \<and>
   (length (step1 s) < 2 \<longrightarrow> postProcess_name s = s)"
  by (simp add: cleanVillageNameForGeocoding_def Let_def postProcess_short)

theorem cleaner_empty_or_short_witness:
  "length (strip_geocoding (js ''A-1'')) < 2 \<and>
   cleanVillageNameForGeocoding (JStr (js ''A-1'')) = Inr (JStr (js ''A-1'')) \<and>
   length (step1 (js ''A-1'')) < 2 \<and> postProcess_name (js ''A-1'') = js ''A-1''"
proof -
  have 1: "length (strip_geocoding (js ''A-1'')) < 2" by code_simp
  have 2: "length (step1 (js ''A-1'')) < 2" by code_simp
  from cleaner_empty_or_short[of "js ''A-1''"] 1 2 show ?thesis by blast
qed

text \<open>Claim C9 as stated fails on a missing name: the result is the empty string.\<close>

theorem cleaner_missing_input_counterexample:
  "cleanVillageNameForGeocoding JNull \<noteq> Inr JNull \<and>
   cleanVillageNameForGeocoding JUndefined \<noteq> Inr JUndefined"
  by (simp add: cleanVillageNameForGeocoding_def)

text \<open>The geocoding cleaner prefers the original already below 3 code units.\<close>

lemma cleaner_threshold_three:
  "length (strip_geocoding s) < 3 \<Longrightarrow> cleanVillageNameForGeocoding (JStr s) = Inr (JStr s)"
  by (simp add: cleanVillageNameForGeocoding_def Let_def)

subsection \<open>The village-name post-processor\<close>

lemma extract_candidate_match:
  "extract_candidate ps s = Some c \<Longrightarrow>
   \<exists>p \<in> set ps. \<exists>m \<in> set (match_all p s). c = trim m \<and> valid_candidate (trim m)"
  by (induction ps s rule: extract_candidate.induct)
     (auto split: list.splits if_splits)

lemma nothing_to_extract:
  assumes "\<forall>p \<in> set (butlast patterns). match_all p s = []"
    and "\<forall>m \<in> set (match_all (last patterns) s). \<not> valid_candidate (trim m)"
  shows "extract_candidate patterns s = None"
proof (cases "extract_candidate patterns s")
  case None
  then show ?thesis .
next
  case (Some c)
  from extract_candidate_match[OF Some] obtain p m where
    p: "p \<in> set patterns" and m: "m \<in> set (match_all p s)" and v: "valid_candidate (trim m)"
    by blast
  have ne: "patterns \<noteq> []" by (simp add: patterns_def)
  from p have "p \<in> set (butlast patterns @ [last patterns])"
    by (simp only: append_butlast_last_id[OF ne])
  then have "p \<in> set (butlast patterns) \<or> p = last patterns" by auto
  with assms m v show ?thesis by auto
qed

text \<open>
  Claim C3, as amended. For a non-empty name the result is non-empty. The result has
  neither the word "survey" nor the word "revenue" in two cases: when Step 1 leaves a
  name of 2 to 10 code units with neither word, which is then the result, and when Step 2
  takes a candidate from a pattern, which is then the result. The name comes back with
  whatever boilerplate it has where nothing validates: when Step 1 leaves fewer than 2
  code units the result is the original name (Step 3), and when Step 1 leaves a name that
  needs Step 2 while none of the five patterns with the suffix "na" matches the original
  name and none of its words (the matches of the sixth pattern) is a valid candidate, the
  result is the name that Step 1 left. Nothing is stated about a name that needs Step 2
  and in which a pattern matches but no candidate is taken.
\<close>

theorem postprocessor_output:
  assumes "originalName \<noteq> []"
  shows "postProcess_name originalName \<noteq> [] \<and>
         (\<not> needs_extraction (step1 originalName) \<and> 2 \<le> length (step1 originalName) \<longrightarrow>
            postProcess_name originalName = step1 originalName \<and>
            \<not> includes_js (postProcess_name originalName) survey \<and>
            \<not> includes_js (postProcess_name originalName) revenue) \<and>
         (\<forall>candidate.
            needs_extraction (step1 originalName) \<and>
            extract_candidate patterns originalName = Some candidate \<longrightarrow>
              postProcess_name originalName = candidate \<and>
              \<not> includes_js (postProcess_name originalName) survey \<and>
              \<not> includes_js (postProcess_name originalName) revenue) \<and>
         (length (step1 originalName) < 2 \<longrightarrow> postProcess_name originalName = originalName) \<and>
         (needs_extraction (step1 originalName) \<and>
          (\<forall>p \<in> set (butlast patterns). match_all p originalName = []) \<and>
          (\<forall>m \<in> set (match_all (last patterns) originalName). \<not> valid_candidate (trim m)) \<longrightarrow>
            postProcess_name originalName = step1 originalName)"
proof (intro conjI allI impI)
  show "postProcess_name originalName \<noteq> []"
    using assms by (auto simp: postProcess_name_def Let_def split: option.splits)
next
  assume a: "\<not> needs_extraction (step1 originalName) \<and> 2 \<le> length (step1 originalName)"
  then show r: "postProcess_name originalName = step1 originalName"
    by (auto simp: postProcess_name_def Let_def)
  from a show "\<not> includes_js (postProcess_name originalName) survey"
    and "\<not> includes_js (postProcess_name originalName) revenue"
    unfolding r by (simp_all add: needs_extraction_def)
next
  fix candidate
  assume a: "needs_extraction (step1 originalName) \<and>
             extract_candidate patterns originalName = Some candidate"
  then have v: "valid_candidate candidate" by (auto dest: extract_candidate_valid)
  with a show r: "postProcess_name originalName = candidate"
    by (auto simp: postProcess_name_def Let_def valid_candidate_def)
  from v show "\<not> includes_js (postProcess_name originalName) survey"
    and "\<not> includes_js (postProcess_name originalName) revenue"
    unfolding r by (simp_all add: valid_candidate_def)
next
  assume "length (step1 originalName) < 2"
  then show "postProcess_name originalName = originalName" by (rule postProcess_short)
next
  assume a: "needs_extraction (step1 originalName) \<and>
             (\<forall>p \<in> set (butlast patterns). match_all p originalName = []) \<and>
             (\<forall>m \<in> set (match_all (last patterns) originalName). \<not> valid_candidate (trim m))"
  then have n: "extract_candidate patterns originalName = None"
    by (intro nothing_to_extract) blast+
  from a have "\<not> length (step1 originalName) < 2"
    using short_needs_no_extraction[of "step1 originalName"] by blast
  with a n show "postProcess_name originalName = step1 originalName"
    by (auto simp: postProcess_name_def Let_def)
qed

theorem postprocessor_output_witness:
  "scenarioB \<noteq> [] \<and> step1 scenarioB = ribda \<and> postProcess_name scenarioB = ribda \<and>
   \<not> includes_js (postProcess_name scenarioB) survey \<and>
   \<not> includes_js (postProcess_name scenarioB) revenue \<and>
   extract_candidate patterns (survey @ js '' '' @ ribda) = Some ribda \<and>
   postProcess_name (survey @ js '' '' @ ribda) = ribda \<and>
   step1 (survey @ js '' '' @ nam @ js '' '' @ d367) = [] \<and>
   postProcess_name (survey @ js '' '' @ nam @ js '' '' @ d367) =
     survey @ js '' '' @ nam @ js '' '' @ d367 \<and>
   step1 survey = survey \<and> postProcess_name survey = survey"
proof -
  have b: "scenarioB \<noteq> []" "\<not> needs_extraction (step1 scenarioB)"
    "2 \<le> length (step1 scenarioB)"
    by code_simp+
  have b': "step1 scenarioB = ribda" by code_simp
  have c: "survey @ js '' '' @ ribda \<noteq> []"
    "needs_extraction (step1 (survey @ js '' '' @ ribda))"
    "extract_candidate patterns (survey @ js '' '' @ ribda) = Some ribda"
    by code_simp+
  have d: "survey @ js '' '' @ nam @ js '' '' @ d367 \<noteq> []"
    "length (step1 (survey @ js '' '' @ nam @ js '' '' @ d367)) < 2"
    by code_simp+
  have d': "step1 (survey @ js '' '' @ nam @ js '' '' @ d367) = []" by code_simp
  have e: "survey \<noteq> []" "needs_extraction (step1 survey)"
    "\<forall>p \<in> set (butlast patterns). match_all p survey = []"
    "\<forall>m \<in> set (match_all (last patterns) survey). \<not> valid_candidate (trim m)"
    by code_simp+
  have e': "step1 survey = survey" by code_simp
  from postprocessor_output[OF b(1)] b
  have 1: "postProcess_name scenarioB = step1 scenarioB \<and>
           \<not> includes_js (postProcess_name scenarioB) survey \<and>
           \<not> includes_js (postProcess_name scenarioB) revenue"
    by blast
  from postprocessor_output[OF c(1)] c
  have 2: "postProcess_name (survey @ js '' '' @ ribda) = ribda" by blast
  from postprocessor_output[OF d(1)] d
  have 3: "postProcess_name (survey @ js '' '' @ nam @ js '' '' @ d367) =
             survey @ js '' '' @ nam @ js '' '' @ d367"
    by blast
  from postprocessor_output[OF e(1)] e
  have 4: "postProcess_name survey = step1 survey" by blast
  from 1 have r1: "postProcess_name scenarioB = ribda" unfolding b' by blast
  from 4 have r4: "postProcess_name survey = survey" unfolding e' .
  from b(1) b' 1 r1 c(3) 2 d' 3 e' r4 show ?thesis by blast
qed

text \<open>
  Claim C3 as stated fails on the name "survey": Step 1 leaves it alone, no pattern with
  the suffix "na" matches it and its only word is not a valid candidate, so nothing
  validates and it comes back as it is. It fails in the same way on "revenue nam.12", of
  which Step 1 leaves "revenue nam".
\<close>

theorem postprocessor_boilerplate_counterexample:
  "includes_js (postProcess_name survey) survey \<and>
   includes_js (postProcess_name (revenue @ js '' '' @ nam @ js ''.12'')) revenue"
  by code_simp

text \<open>
  Outside the amended claim is the case where a pattern matches and no candidate is taken.
  The patterns have the \<open>g\<close> flag, so \<open>originalName.match(pattern)\<close> is the list of the
  matches of the whole pattern and \<open>match[1]\<close> is the second of them, not the group that
  the comment of each pattern names. In "Ribda-na revenue survey" the third pattern,
  "[VILLAGE]na revenue", matches once: its group is the valid name "Ribda", but there is no
  second match. The only second match is the word "revenue" of the sixth pattern, which is
  not valid, and the name comes back with both words.
\<close>

lemma postprocessor_second_match:
  "match_all (patterns ! 2) ribdana_revenue_survey = [ribda @ naa @ js '' '' @ revenue] \<and>
   valid_candidate ribda \<and>
   map (\<lambda>p. match_all p ribdana_revenue_survey) (take 2 patterns @ take 2 (drop 3 patterns)) =
     [[], [], [], []] \<and>
   match_all (patterns ! 5) ribdana_revenue_survey = [ribda @ naa, revenue, survey] \<and>
   postProcess_name ribdana_revenue_survey = ribdana_revenue_survey \<and>
   includes_js (postProcess_name ribdana_revenue_survey) revenue \<and>
   includes_js (postProcess_name ribdana_revenue_survey) survey"
  by code_simp

subsection \<open>Objects and parsed texts\<close>

lemma map_of_put: "map_of (put k v kvs) = (map_of kvs)(k \<mapsto> v)"
  by (induction kvs) (auto simp: fun_upd_twist)

lemma get_put: "get (JObj (put k v kvs)) k' = (if k' = k then v else get (JObj kvs) k')"
  by (simp add: get_def map_of_put)

lemma puts_Cons: "puts ((k, v) # ps) base = puts ps (put k v base)"
  by (simp add: puts_def)

lemma puts_Nil: "puts [] base = base"
  by (simp add: puts_def)

lemma map_of_puts:
  "map_of (puts ps base) k =
     (case map_of (rev ps) k of Some v \<Rightarrow> Some v | None \<Rightarrow> map_of base k)"
proof (induction ps arbitrary: base)
  case Nil
  show ?case by (simp add: puts_Nil)
next
  case (Cons p ps)
  obtain a b where p: "p = (a, b)" by (cases p)
  show ?case unfolding p puts_Cons Cons.IH
    by (auto simp: map_of_put map_add_def split: option.splits)
qed

lemma keys_put: "set (map fst (put k v kvs)) = insert k (set (map fst kvs))"
  by (induction kvs) (force split: if_splits)+

lemma distinct_put: "distinct (map fst kvs) \<Longrightarrow> distinct (map fst (put k v kvs))"
proof (induction kvs)
  case Nil
  show ?case by simp
next
  case (Cons p kvs)
  obtain a b where p: "p = (a, b)" by (cases p)
  from Cons.prems have d: "distinct (map fst kvs)" and n: "a \<notin> set (map fst kvs)"
    by (simp_all add: p)
  show ?case
  proof (cases "k = a")
    case True
    with d n show ?thesis by (simp add: p)
  next
    case False
    have "a \<notin> set (map fst (put k v kvs))" unfolding keys_put using n False by simp
    with Cons.IH[OF d] False show ?thesis by (simp add: p)
  qed
qed

lemma parse_members_distinct:
  "distinct (map fst acc) \<Longrightarrow> parse_members n s acc = Some (v, r) \<Longrightarrow>
     \<exists>kvs. v = JObj kvs \<and> distinct (map fst kvs)"
proof (induction n arbitrary: s acc)
  case 0
  then show ?case by simp
next
  case (Suc n)
  from Suc.prems(2) show ?case
    by (auto split: list.splits if_splits option.splits prod.splits
             intro: distinct_put[OF Suc.prems(1)] Suc.IH[OF distinct_put[OF Suc.prems(1)]])
qed

lemma parse_elements_not_obj:
  "parse_elements n s acc = Some (v, r) \<Longrightarrow> \<exists>xs. v = JArr xs"
  by (induction n arbitrary: s acc) (auto split: list.splits if_splits option.splits prod.splits)

lemma parse_value_obj_distinct:
  assumes "parse_value n s = Some (JObj kvs, r)"
  shows "distinct (map fst kvs)"
proof (cases n)
  case 0
  with assms show ?thesis by simp
next
  case (Suc m)
  with assms show ?thesis
    by (auto split: list.splits if_splits option.splits prod.splits
             dest: parse_members_distinct[rotated] parse_elements_not_obj)
qed

lemma JSON_parse_obj_distinct:
  assumes "JSON_parse s = Inr (JObj kvs)"
  shows "distinct (map fst kvs)"
proof (cases "parse_value (2 * length s + 2) s")
  case None
  with assms show ?thesis by (simp add: JSON_parse_def)
next
  case (Some p)
  obtain v r where p: "p = (v, r)" by (cases p)
  from assms Some p have "v = JObj kvs"
    by (simp add: JSON_parse_def split: if_splits)
  with Some p show ?thesis using parse_value_obj_distinct by blast
qed

lemma map_of_rev_distinct: "distinct (map fst ps) \<Longrightarrow> map_of (rev ps) = map_of ps"
  using map_of_inject_set[of "rev ps" ps] by (simp add: rev_map[symmetric])

lemma parse_value_defined:
  assumes "parse_value n s = Some (v, r)"
  shows "v \<noteq> JUndefined"
proof (cases n)
  case 0
  with assms show ?thesis by simp
next
  case (Suc m)
  with assms show ?thesis
    by (auto split: list.splits if_splits option.splits prod.splits
             dest: parse_members_distinct[rotated] parse_elements_not_obj)
qed

lemma JSON_parse_defined: "JSON_parse s \<noteq> Inr JUndefined"
proof (cases "parse_value (2 * length s + 2) s")
  case None
  then show ?thesis by (simp add: JSON_parse_def)
next
  case (Some p)
  obtain v r where p: "p = (v, r)" by (cases p)
  from Some p have "v \<noteq> JUndefined" using parse_value_defined by blast
  with Some p show ?thesis by (simp add: JSON_parse_def)
qed

lemma get_empty_structure:
  "k \<in> set ks \<Longrightarrow> get (JObj (map (\<lambda>k. (k, JNull)) ks)) k = JNull"
  by (induction ks) (auto simp: get_def)

lemma length_field_names: "length field_names = 11"
  by (simp add: field_names_def)

lemma unat_of_char16: "unat (of_char x :: 16 word) = (of_char x :: nat)"
proof -
  have "(of_char x :: nat) mod 256 = of_char x" by simp
  then have lt: "(of_char x :: nat) < 256"
    by (metis mod_less_divisor zero_less_numeral)
  have "(of_char x :: 16 word) = of_nat (of_char x)" by (simp add: of_nat_of_char)
  then have "unat (of_char x :: 16 word) = (of_char x :: nat) mod 2 ^ 16"
    by (simp add: unat_of_nat)
  also have "\<dots> = of_char x"
  proof (rule mod_less)
    have "(256::nat) < 2 ^ 16" by simp
    with lt show "(of_char x :: nat) < 2 ^ 16" by (rule less_trans)
  qed
  finally show ?thesis .
qed

lemma inj_of_char16: "inj (of_char :: char \<Rightarrow> 16 word)"
proof (rule injI)
  fix c d :: char
  assume "(of_char c :: 16 word) = of_char d"
  then have "unat (of_char c :: 16 word) = unat (of_char d :: 16 word)" by simp
  then have "(of_char c :: nat) = of_char d" by (simp only: unat_of_char16)
  then show "c = d" by simp
qed

lemma js_eq_iff: "js a = js b \<longleftrightarrow> a = b"
  by (simp add: js_def inj_map_eq_map[OF inj_of_char16])


subsection \<open>The field extractor\<close>

text \<open>\<open>postProcessVillageNames\<close> applies \<open>postProcess_name\<close> to a non-empty name of the object and
  returns an object without a name as it is.\<close>

lemma postProcessVillageNames_name:
  assumes "get (JObj kvs) (js ''village_name'') = JStr originalName" and "originalName \<noteq> []"
  shows "\<exists>kvs'. postProcessVillageNames (JObj kvs) = Inr (JObj kvs') \<and>
           get (JObj kvs') (js ''village_name'') = JStr (postProcess_name originalName) \<and>
           get (JObj kvs') (js ''village_name_cleaned'') = JStr (postProcess_name originalName)"
  using assms
  by (simp add: postProcessVillageNames_def getprop_def Let_def own_props_def puts_Cons puts_Nil
                get_put js_eq_iff)

lemma postProcessVillageNames_missing:
  assumes "\<not> truthy (get (JObj kvs) (js ''village_name''))"
  shows "postProcessVillageNames (JObj kvs) = Inr (JObj kvs)"
  using assms by (simp add: postProcessVillageNames_def getprop_def)

text \<open>
  Claim C2, as amended. The parser never raises. When the text fails to parse after the
  code fences are stripped and the fallback of the \<open>catch\<close> block finds no brace-delimited
  block that parses to a value with a truthy \<open>data\<close>, the result is the empty structure: the
  11 named fields are \<open>null\<close> and the confidence is exactly 0.1.
\<close>

theorem extractor_ultimate_fallback:
  assumes "isl (JSON_parse (strip_fences response))" and "parse_fallback response = None"
  shows "parseGeminiResponse conv response = empty_structure \<and>
         (\<forall>k \<in> set field_names. get (data (parseGeminiResponse conv response)) k = JNull) \<and>
         length field_names = 11 \<and>
         confidence (parseGeminiResponse conv response) = JNum 0.1"
proof -
  from assms(1) obtain e where "JSON_parse (strip_fences response) = Inl e"
    by (cases "JSON_parse (strip_fences response)") simp_all
  then have "parse_main conv response = Inl e" by (simp add: parse_main_def)
  with assms(2) have r: "parseGeminiResponse conv response = empty_structure"
    by (simp add: parseGeminiResponse_def)
  show ?thesis unfolding r
    by (simp add: empty_structure_def get_empty_structure length_field_names)
qed

theorem extractor_ultimate_fallback_witness:
  "isl (JSON_parse (strip_fences (js ''Sorry, I cannot read this notice.''))) \<and>
   parse_fallback (js ''Sorry, I cannot read this notice.'') = None \<and>
   parseGeminiResponse example_conv (js ''Sorry, I cannot read this notice.'') = empty_structure \<and>
   confidence (parseGeminiResponse example_conv (js ''Sorry, I cannot read this notice.'')) = JNum 0.1"
proof -
  have 1: "isl (JSON_parse (strip_fences (js ''Sorry, I cannot read this notice.'')))"
    by code_simp
  have 2: "parse_fallback (js ''Sorry, I cannot read this notice.'') = None" by code_simp
  from extractor_ultimate_fallback[OF 1 2, of example_conv] 1 2 show ?thesis by blast
qed

text \<open>
  Claim C2 as stated fails on a response with text before the object: parsing the whole
  text fails, the block from the first to the last brace parses, and its data and its
  confidence are returned.
\<close>

theorem extractor_fallback_counterexample:
  \<open>isl (JSON_parse (strip_fences (js ''Here: {"data":{"district":"Rajkot"},"confidence":0.9}''))) \<and>
   confidence (parseGeminiResponse example_conv
     (js ''Here: {"data":{"district":"Rajkot"},"confidence":0.9}'')) = JNum 0.9 \<and>
   get (data (parseGeminiResponse example_conv
     (js ''Here: {"data":{"district":"Rajkot"},"confidence":0.9}''))) (js ''district'') =
     JStr (js ''Rajkot'')\<close>
  by code_simp

text \<open>
  Claim C8 fails in the code: the fallback of the \<open>catch\<close> block returns the reported
  confidence as it is, here 5, while the \<open>try\<close> block clamps it.
\<close>

theorem extractor_fallback_unclamped:
  \<open>parseGeminiResponse example_conv (js ''Here: {"data":{"district":"Rajkot"},"confidence":5}'') =
     \<lparr>data = JObj [(js ''district'', JStr (js ''Rajkot''))], confidence = JNum 5,
      notes_text = JStr (js ''Parsed with fallback method'')\<rparr>\<close>
  by code_simp

lemma extractor_main_path_clamps:
  assumes "parse_main conv response = Inr result"
  shows "confidence result = JNaN \<or> (\<exists>c. confidence result = JNum c \<and> 0 \<le> c \<and> c \<le> 1)"
  using assms
  by (auto simp: parse_main_def Let_def Math_min_def Math_max_def
           split: sum.splits if_splits jsvalue.splits)

subsection \<open>The refinement pass\<close>

lemma get_puts_obj:
  "get (JObj (puts ps base)) k =
     (case map_of (rev ps) k of Some v \<Rightarrow> v | None \<Rightarrow> get (JObj base) k)"
  by (simp add: get_def map_of_puts split: option.splits)

lemma refine_failure:
  assumes "isl (JSON_parse (strip_fences reply))"
  shows "let r = refineExtractedDataWithGemini True (Inr reply) elapsed (JObj kvs)
         in get r (js ''refinement_applied'') = JBool False \<and>
            (\<exists>m. get r (js ''refinement_error'') = JStr m) \<and>
            (\<forall>k. k \<notin> failure_tags \<longrightarrow> get r k = get (JObj kvs) k)"
proof -
  from assms obtain e where e: "JSON_parse (strip_fences reply) = Inl e"
    by (cases "JSON_parse (strip_fences reply)") simp_all
  have t: "refine_try (Inr reply) elapsed (JObj kvs) =
             Inl (Error (js ''Refinement response parsing failed: '' @ message e))"
    by (simp add: refine_try_def getprop_def e)
  show ?thesis
    by (simp add: refineExtractedDataWithGemini_def t Let_def own_props_def puts_Cons puts_Nil
                  get_put js_eq_iff failure_tags_def)
qed

lemma refine_applied:
  assumes "JSON_parse (strip_fences reply) = Inr refined" and "refined \<noteq> JNull"
  shows "let r = refineExtractedDataWithGemini True (Inr reply) elapsed (JObj kvs)
         in get r (js ''refinement_applied'') = JBool True \<and>
            get r (js ''original_village_name'') = get (JObj kvs) (js ''village_name'') \<and>
            get r (js ''original_survey_number'') = get (JObj kvs) (js ''survey_number'') \<and>
            get r (js ''original_notice_date'') = get (JObj kvs) (js ''notice_date'') \<and>
            get r (js ''original_latitude'') = get (JObj kvs) (js ''latitude'') \<and>
            get r (js ''original_longitude'') = get (JObj kvs) (js ''longitude'')"
proof -
  from assms(1) have "refined \<noteq> JUndefined" using JSON_parse_defined[of "strip_fences reply"] by auto
  with assms show ?thesis
    by (simp add: refineExtractedDataWithGemini_def refine_try_def getprop_def Let_def
                  puts_Cons puts_Nil get_put js_eq_iff)
qed

lemma refine_union:
  assumes "JSON_parse (strip_fences reply) = Inr (JObj ps)"
  shows "let r = refineExtractedDataWithGemini True (Inr reply) elapsed (JObj kvs)
         in \<forall>k. k \<notin> merge_tags \<longrightarrow>
              get r k = (if k \<in> fst ` set ps then get (JObj ps) k else get (JObj kvs) k)"
proof -
  from assms have d: "distinct (map fst ps)" by (rule JSON_parse_obj_distinct)
  have u: "get (JObj (puts ps kvs)) k =
             (if k \<in> fst ` set ps then get (JObj ps) k else get (JObj kvs) k)" for k
  proof (cases "map_of ps k")
    case None
    then have "k \<notin> fst ` set ps" by (simp add: map_of_eq_None_iff)
    with None show ?thesis
      unfolding get_puts_obj map_of_rev_distinct[OF d] by simp
  next
    case (Some v)
    then have "(k, v) \<in> set ps" by (rule map_of_SomeD)
    then have "k \<in> fst ` set ps" by force
    with Some show ?thesis
      unfolding get_puts_obj map_of_rev_distinct[OF d] by (simp add: get_def)
  qed
  show ?thesis using assms
    by (simp add: refineExtractedDataWithGemini_def refine_try_def getprop_def Let_def
                  own_props_def puts_Cons puts_Nil get_put js_eq_iff merge_tags_def u)
qed

text \<open>
  Claim C4, as amended. With the credential configured and a reply received: if the reply
  fails to parse after the code fences are stripped, the result has every field of the
  original data unchanged, \<open>refinement_applied = false\<close> and an error string; if the reply
  parses to a value other than \<open>null\<close>, \<open>refinement_applied = true\<close> and the five
  \<open>original_*\<close> keys hold the values from before the refinement; if it parses to an
  object, every other key holds the refined value where the reply has the key and the
  original value otherwise.
\<close>

theorem refinement_result:
  "(isl (JSON_parse (strip_fences reply)) \<longrightarrow>
      (let r = refineExtractedDataWithGemini True (Inr reply) elapsed (JObj kvs)
       in get r (js ''refinement_applied'') = JBool False \<and>
          (\<exists>m. get r (js ''refinement_error'') = JStr m) \<and>
          (\<forall>k. k \<notin> failure_tags \<longrightarrow> get r k = get (JObj kvs) k))) \<and>
   (\<forall>refined. JSON_parse (strip_fences reply) = Inr refined \<and> refined \<noteq> JNull \<longrightarrow>
      (let r = refineExtractedDataWithGemini True (Inr reply) elapsed (JObj kvs)
       in get r (js ''refinement_applied'') = JBool True \<and>
          get r (js ''original_village_name'') = get (JObj kvs) (js ''village_name'') \<and>
          get r (js ''original_survey_number'') = get (JObj kvs) (js ''survey_number'') \<and>
          get r (js ''original_notice_date'') = get (JObj kvs) (js ''notice_date'') \<and>
          get r (js ''original_latitude'') = get (JObj kvs) (js ''latitude'') \<and>
          get r (js ''original_longitude'') = get (JObj kvs) (js ''longitude''))) \<and>
   (\<forall>ps. JSON_parse (strip_fences reply) = Inr (JObj ps) \<longrightarrow>
      (let r = refineExtractedDataWithGemini True (Inr reply) elapsed (JObj kvs)
       in \<forall>k. k \<notin> merge_tags \<longrightarrow>
            get r k = (if k \<in> fst ` set ps then get (JObj ps) k else get (JObj kvs) k)))"
  using refine_failure[of reply elapsed kvs] refine_applied[of reply _ elapsed kvs]
        refine_union[of reply _ elapsed kvs]
  by blast

theorem refinement_result_witness:
  \<open>isl (JSON_parse (strip_fences (js ''I am not sure.''))) \<and>
   get (refineExtractedDataWithGemini True (Inr (js ''I am not sure.'')) 12
          (JObj [(js ''village_name'', JStr (js ''Ribda 12''))])) (js ''refinement_applied'') = JBool False \<and>
   get (refineExtractedDataWithGemini True (Inr (js ''I am not sure.'')) 12
          (JObj [(js ''village_name'', JStr (js ''Ribda 12''))])) (js ''village_name'') = JStr (js ''Ribda 12'') \<and>
   JSON_parse (strip_fences (js ''{"village_name":"Ribda"}'')) =
     Inr (JObj [(js ''village_name'', JStr (js ''Ribda''))]) \<and>
   get (refineExtractedDataWithGemini True (Inr (js ''{"village_name":"Ribda"}'')) 12
          (JObj [(js ''village_name'', JStr (js ''Ribda 12''))])) (js ''refinement_applied'') = JBool True \<and>
   get (refineExtractedDataWithGemini True (Inr (js ''{"village_name":"Ribda"}'')) 12
          (JObj [(js ''village_name'', JStr (js ''Ribda 12''))])) (js ''original_village_name'') = JStr (js ''Ribda 12'') \<and>
   get (refineExtractedDataWithGemini True (Inr (js ''{"village_name":"Ribda"}'')) 12
          (JObj [(js ''village_name'', JStr (js ''Ribda 12''))])) (js ''village_name'') = JStr (js ''Ribda'')\<close>
proof -
  have 1: "isl (JSON_parse (strip_fences (js ''I am not sure.'')))" by code_simp
  have 2: \<open>JSON_parse (strip_fences (js ''{"village_name":"Ribda"}'')) =
     Inr (JObj [(js ''village_name'', JStr (js ''Ribda''))])\<close> by code_simp
  have 3: "js ''village_name'' \<notin> failure_tags" "js ''village_name'' \<notin> merge_tags"
    by (simp_all add: failure_tags_def merge_tags_def js_eq_iff)
  have 4: "JObj [(js ''village_name'', JStr (js ''Ribda''))] \<noteq> JNull" by simp
  from refinement_result[of "js ''I am not sure.''" 12
         "[(js ''village_name'', JStr (js ''Ribda 12''))]"] 1 3
  have a: "get (refineExtractedDataWithGemini True (Inr (js ''I am not sure.'')) 12
          (JObj [(js ''village_name'', JStr (js ''Ribda 12''))])) (js ''refinement_applied'') = JBool False"
    and b: "get (refineExtractedDataWithGemini True (Inr (js ''I am not sure.'')) 12
          (JObj [(js ''village_name'', JStr (js ''Ribda 12''))])) (js ''village_name'') = JStr (js ''Ribda 12'')"
    by (simp_all add: Let_def get_def)
  from refinement_result[of \<open>js ''{"village_name":"Ribda"}''\<close> 12
         "[(js ''village_name'', JStr (js ''Ribda 12''))]"] 2 3 4
  have c: \<open>get (refineExtractedDataWithGemini True (Inr (js ''{"village_name":"Ribda"}'')) 12
          (JObj [(js ''village_name'', JStr (js ''Ribda 12''))])) (js ''refinement_applied'') = JBool True\<close>
    and d: \<open>get (refineExtractedDataWithGemini True (Inr (js ''{"village_name":"Ribda"}'')) 12
          (JObj [(js ''village_name'', JStr (js ''Ribda 12''))])) (js ''original_village_name'') = JStr (js ''Ribda 12'')\<close>
    and e: \<open>get (refineExtractedDataWithGemini True (Inr (js ''{"village_name":"Ribda"}'')) 12
          (JObj [(js ''village_name'', JStr (js ''Ribda 12''))])) (js ''village_name'') = JStr (js ''Ribda'')\<close>
    by (simp_all add: Let_def get_def)
  from 1 2 a b c d e show ?thesis by blast
qed

text \<open>
  Claim C4 as stated fails on the reply \<open>null\<close>: it parses, the merge then reads a property
  of \<open>null\<close>, and the \<open>catch\<close> block returns the failure result.
\<close>

theorem refinement_null_counterexample:
  \<open>JSON_parse (strip_fences (js ''null'')) = Inr JNull \<and>
   get (refineExtractedDataWithGemini True (Inr (js ''null'')) 12
          (JObj [(js ''village_name'', JStr (js ''Ribda 12''))])) (js ''refinement_applied'') = JBool False\<close>
  by code_simp

subsection \<open>The fuel of the JSON parser\<close>

text \<open>
  \<^const>\<open>parse_value\<close> recurses on a fuel argument, and \<^const>\<open>JSON_parse\<close> starts it with
  twice the length of the input plus two.  Every call consumes input before it recurses, so
  that fuel is never exhausted: any larger fuel gives the same result, a value or a failure.
  A failure of \<^const>\<open>JSON_parse\<close> is therefore a syntax error of the input.
\<close>

lemma skip_ws_length: "length (skip_ws s) \<le> length s"
  by (simp add: skip_ws_def length_dropWhile_le)

lemma skip_ws_Cons: "skip_ws s = c # r \<Longrightarrow> length r < length s"
  using skip_ws_length[of s] by simp

lemma parse_string_body_length: "parse_string_body s = Some (t, r) \<Longrightarrow> length r < length s"
proof (induction s arbitrary: t r rule: parse_string_body.induct)
  case 1
  then show ?case by simp
next
  case (2 c cs)
  show ?case
  proof (cases "c = 0x22")
    case True
    with 2(4) show ?thesis by simp
  next
    case nq: False
    show ?thesis
    proof (cases "c = 0x5C")
      case False
      with nq 2(4) obtain t' where "parse_string_body cs = Some (t', r)"
        by (auto split: if_splits)
      from 2(3)[OF nq _ False this] 2(4) nq show ?thesis by (auto split: if_splits)
    next
      case bs: True
      show ?thesis
      proof (cases cs)
        case Nil
        with 2(4) nq bs show ?thesis by (simp split: if_splits)
      next
        case (Cons e r0)
        show ?thesis
        proof (cases "e = 0x75")
          case False
          with 2(4) nq bs Cons obtain u t' where u: "escape e = Some u"
            and p: "parse_string_body r0 = Some (t', r)"
            by (auto split: if_splits option.splits)
          from 2(2)[OF nq _ bs Cons False u p] 2(4) nq Cons show ?thesis
            by (auto split: if_splits)
        next
          case True
          with 2(4) nq bs Cons obtain h1 h2 h3 h4 r' u t' where
            r0: "r0 = h1 # h2 # h3 # h4 # r'" and h: "hex4 h1 h2 h3 h4 = Some u"
            and p: "parse_string_body r' = Some (t', r)"
            by (auto split: if_splits option.splits list.splits)
          from 2(1)[OF nq _ bs Cons True r0 refl refl refl h p] 2(4) nq Cons r0 show ?thesis
            by (auto split: if_splits)
        qed
      qed
    qed
  qed
qed

lemma dropWhile_takeWhile_less:
  "takeWhile P xs \<noteq> [] \<Longrightarrow> length (dropWhile P xs) < length xs"
  by (induction xs) (auto simp: less_Suc_eq_le length_dropWhile_le split: if_splits)

lemma sign_part_length: "length (snd (sign_part s)) \<le> length s"
  by (auto simp: sign_part_def split: list.splits)

lemma fraction_part_length: "length (snd (fraction_part s)) \<le> length s"
  by (auto simp: fraction_part_def split: list.splits intro: le_SucI length_dropWhile_le)

lemma exponent_part_length: "length (snd (exponent_part s)) \<le> length s"
  by (auto simp: exponent_part_def split: list.splits
           intro: le_SucI length_dropWhile_le le_trans[OF length_dropWhile_le])

lemma parse_number_length:
  assumes "parse_number s = Some (x, r)"
  shows "length r < length s"
proof -
  let ?s1 = "snd (sign_part s)"
  let ?s2 = "dropWhile is_digit ?s1"
  let ?s3 = "snd (fraction_part ?s2)"
  let ?s4 = "snd (exponent_part ?s3)"
  from assms have ip: "takeWhile is_digit ?s1 \<noteq> []" and r: "r = ?s4"
    by (auto simp: parse_number_def Let_def split: prod.splits if_splits)
  from ip have "length ?s2 < length ?s1" by (rule dropWhile_takeWhile_less)
  with sign_part_length[of s] fraction_part_length[of ?s2] exponent_part_length[of ?s3]
  show ?thesis unfolding r by linarith
qed


lemmas parse_simps = parse_value.simps parse_elements.simps parse_members.simps

lemma parse_mono_Suc:
  "(\<forall>s res. parse_value n s = Some res \<longrightarrow> parse_value (Suc n) s = Some res) \<and>
   (\<forall>s acc res. parse_elements n s acc = Some res \<longrightarrow> parse_elements (Suc n) s acc = Some res) \<and>
   (\<forall>s acc res. parse_members n s acc = Some res \<longrightarrow> parse_members (Suc n) s acc = Some res)"
proof (induction n)
  case 0
  show ?case by simp
next
  case (Suc n)
  then have V: "\<And>s res. parse_value n s = Some res \<Longrightarrow> parse_value (Suc n) s = Some res"
    and E: "\<And>s acc res. parse_elements n s acc = Some res \<Longrightarrow> parse_elements (Suc n) s acc = Some res"
    and M: "\<And>s acc res. parse_members n s acc = Some res \<Longrightarrow> parse_members (Suc n) s acc = Some res"
    by blast+
  show ?case
  proof (intro conjI allI impI)
    fix s res
    assume a: "parse_value (Suc n) s = Some res"
    show "parse_value (Suc (Suc n)) s = Some res"
      apply (subst parse_value.simps(2))
      using a[unfolded parse_value.simps(2)[of n]]
      by (auto simp del: parse_simps split: list.splits if_splits option.splits intro: E M)
  next
    fix s acc res
    assume a: "parse_elements (Suc n) s acc = Some res"
    from a obtain v r where pv: "parse_value n s = Some (v, r)"
      by (auto simp: parse_elements.simps(2)[of n] simp del: parse_simps split: option.splits)
    have pv': "parse_value (Suc n) s = Some (v, r)" by (rule V[OF pv])
    show "parse_elements (Suc (Suc n)) s acc = Some res"
      apply (subst parse_elements.simps(2))
      using a[unfolded parse_elements.simps(2)[of n]]
      by (auto simp del: parse_simps simp: pv pv' split: list.splits if_splits intro: E)
  next
    fix s acc res
    assume a: "parse_members (Suc n) s acc = Some res"
    from a obtain q r k r1 c r2 v r3 where sk: "skip_ws s = q # r" "q = 0x22"
      and ps: "parse_string_body r = Some (k, r1)" and sk1: "skip_ws r1 = c # r2" "c = 0x3A"
      and pv: "parse_value n r2 = Some (v, r3)"
      by (auto simp: parse_members.simps(2)[of n] simp del: parse_simps
               split: option.splits list.splits if_splits)
    have pv': "parse_value (Suc n) r2 = Some (v, r3)" by (rule V[OF pv])
    show "parse_members (Suc (Suc n)) s acc = Some res"
      apply (subst parse_members.simps(2))
      using a[unfolded parse_members.simps(2)[of n]]
      by (auto simp del: parse_simps simp: sk ps sk1 pv pv' split: list.splits if_splits intro: M)
  qed
qed


lemma parse_value_mono:
  assumes "parse_value n s = Some res" and "n \<le> m"
  shows "parse_value m s = Some res"
  using assms(2,1) by (induction rule: dec_induct) (simp_all add: parse_mono_Suc del: parse_simps)

lemma parse_elements_mono:
  assumes "parse_elements n s acc = Some res" and "n \<le> m"
  shows "parse_elements m s acc = Some res"
  using assms(2,1) by (induction rule: dec_induct) (simp_all add: parse_mono_Suc del: parse_simps)

lemma parse_members_mono:
  assumes "parse_members n s acc = Some res" and "n \<le> m"
  shows "parse_members m s acc = Some res"
  using assms(2,1) by (induction rule: dec_induct) (simp_all add: parse_mono_Suc del: parse_simps)

lemma parse_length:
  "(\<forall>s v r. parse_value n s = Some (v, r) \<longrightarrow> length r < length s) \<and>
   (\<forall>s acc v r. parse_elements n s acc = Some (v, r) \<longrightarrow> length r < length s) \<and>
   (\<forall>s acc v r. parse_members n s acc = Some (v, r) \<longrightarrow> length r < length s)"
proof (induction n)
  case 0
  show ?case by simp
next
  case (Suc n)
  then have V: "\<And>s v r. parse_value n s = Some (v, r) \<Longrightarrow> length r < length s"
    and E: "\<And>s acc v r. parse_elements n s acc = Some (v, r) \<Longrightarrow> length r < length s"
    and M: "\<And>s acc v r. parse_members n s acc = Some (v, r) \<Longrightarrow> length r < length s"
    by blast+
  show ?case
  proof (intro conjI allI impI)
    fix s v r
    assume a: "parse_value (Suc n) s = Some (v, r)"
    from a obtain c r0 where sk: "skip_ws s = c # r0"
      by (auto simp: parse_value.simps(2)[of n] simp del: parse_simps split: list.splits)
    have l0: "length r0 < length s" by (rule skip_ws_Cons[OF sk])
    show "length r < length s"
      using a[unfolded parse_value.simps(2)[of n]] l0
      by (auto simp del: parse_simps simp: sk split: list.splits if_splits option.splits
               dest!: skip_ws_Cons parse_string_body_length parse_number_length M E)
  next
    fix s acc v r
    assume a: "parse_elements (Suc n) s acc = Some (v, r)"
    from a obtain w r0 d r1 where pv: "parse_value n s = Some (w, r0)" and sk: "skip_ws r0 = d # r1"
      by (auto simp: parse_elements.simps(2)[of n] simp del: parse_simps
               split: option.splits list.splits)
    have l0: "length r0 < length s" by (rule V[OF pv])
    have l1: "length r1 < length r0" by (rule skip_ws_Cons[OF sk])
    show "length r < length s"
      using a[unfolded parse_elements.simps(2)[of n]] l0 l1
      by (auto simp del: parse_simps simp: pv sk split: if_splits dest!: E)
  next
    fix s acc v r
    assume a: "parse_members (Suc n) s acc = Some (v, r)"
    from a obtain q r0 k r1 c r2 w r3 d r4 where sk: "skip_ws s = q # r0" "q = 0x22"
      and ps: "parse_string_body r0 = Some (k, r1)" and sk1: "skip_ws r1 = c # r2" "c = 0x3A"
      and pv: "parse_value n r2 = Some (w, r3)" and sk3: "skip_ws r3 = d # r4"
      by (auto simp: parse_members.simps(2)[of n] simp del: parse_simps
               split: option.splits list.splits if_splits)
    have l: "length r0 < length s" "length r1 < length r0" "length r2 < length r1"
      "length r3 < length r2" "length r4 < length r3"
      using skip_ws_Cons[OF sk(1)] parse_string_body_length[OF ps] skip_ws_Cons[OF sk1(1)]
        V[OF pv] skip_ws_Cons[OF sk3] by simp_all
    show "length r < length s"
      using a[unfolded parse_members.simps(2)[of n]] l
      by (auto simp del: parse_simps simp: sk ps sk1 pv sk3 split: if_splits dest!: M)
  qed
qed


lemma parse_bound:
  "(\<forall>s res. parse_value n s = Some res \<longrightarrow> parse_value (2 * length s) s = Some res) \<and>
   (\<forall>s acc res. parse_elements n s acc = Some res \<longrightarrow>
      parse_elements (2 * length s + 1) s acc = Some res) \<and>
   (\<forall>s acc res. parse_members n s acc = Some res \<longrightarrow>
      parse_members (2 * length s + 1) s acc = Some res)"
proof (induction n)
  case 0
  show ?case by simp
next
  case (Suc n)
  then have V: "\<And>s res. parse_value n s = Some res \<Longrightarrow> parse_value (2 * length s) s = Some res"
    and E: "\<And>s acc res. parse_elements n s acc = Some res \<Longrightarrow>
              parse_elements (2 * length s + 1) s acc = Some res"
    and M: "\<And>s acc res. parse_members n s acc = Some res \<Longrightarrow>
              parse_members (2 * length s + 1) s acc = Some res"
    by blast+
  show ?case
  proof (intro conjI allI impI)
    fix s res
    assume a: "parse_value (Suc n) s = Some res"
    from a obtain c r0 where sk: "skip_ws s = c # r0"
      by (auto simp: parse_value.simps(2)[of n] simp del: parse_simps split: list.splits)
    have l0: "length r0 < length s" by (rule skip_ws_Cons[OF sk])
    define k where "k = 2 * length s - 1"
    have k: "2 * length s = Suc k" "2 * length r0 + 1 \<le> k" using l0 by (simp_all add: k_def)
    have E': "parse_elements n r0 acc = Some res \<Longrightarrow> parse_elements k r0 acc = Some res" for acc
      by (rule parse_elements_mono[OF E k(2)])
    have M': "parse_members n r0 acc = Some res \<Longrightarrow> parse_members k r0 acc = Some res" for acc
      by (rule parse_members_mono[OF M k(2)])
    show "parse_value (2 * length s) s = Some res"
      unfolding k(1)
      apply (subst parse_value.simps(2))
      using a[unfolded parse_value.simps(2)[of n]]
      by (auto simp del: parse_simps simp: sk split: list.splits if_splits option.splits
               intro: E' M')
  next
    fix s acc res
    assume a: "parse_elements (Suc n) s acc = Some res"
    from a obtain w r0 d r1 where pv: "parse_value n s = Some (w, r0)" and sk: "skip_ws r0 = d # r1"
      by (auto simp: parse_elements.simps(2)[of n] simp del: parse_simps
               split: option.splits list.splits)
    have l0: "length r0 < length s" using parse_length[of n] pv by blast
    have l1: "length r1 < length r0" by (rule skip_ws_Cons[OF sk])
    have pv': "parse_value (2 * length s) s = Some (w, r0)" by (rule V[OF pv])
    have k: "2 * length r1 + 1 \<le> 2 * length s" using l0 l1 by simp
    have E': "parse_elements n r1 acc' = Some res \<Longrightarrow>
                parse_elements (2 * length s) r1 acc' = Some res" for acc'
      by (rule parse_elements_mono[OF E k])
    show "parse_elements (2 * length s + 1) s acc = Some res"
      unfolding Suc_eq_plus1[symmetric]
      apply (subst parse_elements.simps(2))
      using a[unfolded parse_elements.simps(2)[of n]]
      by (auto simp del: parse_simps simp: pv pv' sk split: if_splits intro: E')
  next
    fix s acc res
    assume a: "parse_members (Suc n) s acc = Some res"
    from a obtain q r0 k r1 c r2 w r3 d r4 where sk: "skip_ws s = q # r0" "q = 0x22"
      and ps: "parse_string_body r0 = Some (k, r1)" and sk1: "skip_ws r1 = c # r2" "c = 0x3A"
      and pv: "parse_value n r2 = Some (w, r3)" and sk3: "skip_ws r3 = d # r4"
      by (auto simp: parse_members.simps(2)[of n] simp del: parse_simps
               split: option.splits list.splits if_splits)
    have l: "length r0 < length s" "length r1 < length r0" "length r2 < length r1"
      "length r3 < length r2" "length r4 < length r3"
      using skip_ws_Cons[OF sk(1)] parse_string_body_length[OF ps] skip_ws_Cons[OF sk1(1)]
        parse_length[of n] pv skip_ws_Cons[OF sk3] by blast+
    have pv': "parse_value (2 * length s) r2 = Some (w, r3)"
      by (rule parse_value_mono[OF V[OF pv]]) (use l in simp)
    have kk: "2 * length r4 + 1 \<le> 2 * length s" using l by simp
    have M': "parse_members n r4 acc' = Some res \<Longrightarrow>
                parse_members (2 * length s) r4 acc' = Some res" for acc'
      by (rule parse_members_mono[OF M kk])
    show "parse_members (2 * length s + 1) s acc = Some res"
      unfolding Suc_eq_plus1[symmetric]
      apply (subst parse_members.simps(2))
      using a[unfolded parse_members.simps(2)[of n]]
      by (auto simp del: parse_simps simp: sk ps sk1 pv pv' sk3 split: if_splits intro: M')
  qed
qed

lemma parse_value_fuel:
  "2 * length s \<le> n \<Longrightarrow> parse_value n s = parse_value (2 * length s) s"
proof (cases "parse_value n s")
  case None
  assume "2 * length s \<le> n"
  with None show ?thesis
    by (cases "parse_value (2 * length s) s") (auto dest: parse_value_mono simp del: parse_simps)
next
  case (Some res)
  then show ?thesis using parse_bound[of n] by (cases res) (auto simp del: parse_simps)
qed

lemma JSON_parse_fuel:
  assumes "2 * length s \<le> n"
  shows "JSON_parse s =
           (case parse_value n s of
              None \<Rightarrow> Inl (SyntaxError s)
            | Some (v, r) \<Rightarrow> if skip_ws r = [] then Inr v else Inl (SyntaxError s))"
proof -
  have "parse_value (2 * length s + 2) s = parse_value (2 * length s) s"
    by (rule parse_value_fuel) simp
  moreover have "parse_value n s = parse_value (2 * length s) s"
    by (rule parse_value_fuel[OF assms])
  ultimately show ?thesis by (simp add: JSON_parse_def del: parse_simps)
qed

subsection \<open>Coordinate reconciliation\<close>

lemma distance_same_point: "calculateDistance lat lon lat lon = 0"
  by (simp add: calculateDistance_def atan2_def)

lemma distance_poles: "calculateDistance 90 lon (- 90) lon = 6371 * pi"
proof -
  have 1: "sin ((- 90 - 90) * pi / 180 / 2) = - 1"
  proof -
    have "(- 90 - 90) * pi / 180 / 2 = - (pi / 2)" by simp
    then show ?thesis by simp
  qed
  have 2: "cos (90 * pi / 180) = 0"
  proof -
    have "90 * pi / 180 = pi / 2" by simp
    then show ?thesis by (simp only: cos_pi_half)
  qed
  show ?thesis
    by (simp only: calculateDistance_def Let_def 1 2) (simp add: atan2_def)
qed

lemma google_confidence_value: "google_confidence = 0.8"
  by (simp add: google_confidence_def num_or_def)

text \<open>
  Claim C1. When the reply of the refinement pass has non-zero coordinates and the geocoder
  succeeded, the result records the haversine distance between the two (Earth radius 6371
  km). At most 10 km apart, the result has exactly the geocoder's coordinates and keeps
  the AI estimate beside them. More than 10 km apart, the result has the coordinates of
  the source with the higher confidence score, the AI's being the reported one (0.7 if
  none) and the geocoder's the fixed 0.8 that the code gives it, and the rejected source
  is recorded as the alternative.
\<close>

theorem reconciliation:
  assumes "gm_latitude coordinateData = Some lat" and "lat \<noteq> 0"
    and "gm_longitude coordinateData = Some lon" and "lon \<noteq> 0"
  shows "\<exists>r. getPerfectCoordinatesWithGemini d coordinateData (Geocoded googleCoords) = Inr r \<and>
           coordinate_distance_km r =
             Some (calculateDistance lat lon (gg_latitude googleCoords) (gg_longitude googleCoords)) \<and>
           (calculateDistance lat lon (gg_latitude googleCoords) (gg_longitude googleCoords) \<le> 10 \<longrightarrow>
              latitude r = gg_latitude googleCoords \<and> longitude r = gg_longitude googleCoords \<and>
              gemini_coordinates r = Some coordinateData) \<and>
           (10 < calculateDistance lat lon (gg_latitude googleCoords) (gg_longitude googleCoords) \<longrightarrow>
              (num_or (gm_confidence_score coordinateData) 0.7 < google_confidence \<longrightarrow>
                 latitude r = gg_latitude googleCoords \<and> longitude r = gg_longitude googleCoords \<and>
                 alternative_coordinates r = Some (GeminiCoords coordinateData)) \<and>
              (google_confidence < num_or (gm_confidence_score coordinateData) 0.7 \<longrightarrow>
                 latitude r = lat \<and> longitude r = lon \<and>
                 alternative_coordinates r = Some (GoogleCoords googleCoords)))"
  using assms
  by (simp add: getPerfectCoordinatesWithGemini_def Let_def)

theorem reconciliation_witness:
  "gm_latitude (gemini_sample 90 70.8022 (Some 0.9)) = Some 90 \<and> (90::real) \<noteq> 0 \<and>
   gm_longitude (gemini_sample 90 70.8022 (Some 0.9)) = Some 70.8022 \<and> (70.8022::real) \<noteq> 0 \<and>
   10 < calculateDistance 90 70.8022 (- 90) 70.8022 \<and>
   google_confidence < num_or (gm_confidence_score (gemini_sample 90 70.8022 (Some 0.9))) 0.7 \<and>
   (case getPerfectCoordinatesWithGemini JNull (gemini_sample 90 70.8022 (Some 0.9))
           (Geocoded (google_sample (- 90) 70.8022)) of
      Inr r \<Rightarrow> latitude r = 90 \<and> longitude r = 70.8022 \<and>
               alternative_coordinates r = Some (GoogleCoords (google_sample (- 90) 70.8022))
    | Inl e \<Rightarrow> False) \<and>
   calculateDistance 22.3038 70.8022 22.3038 70.8022 \<le> 10 \<and>
   (case getPerfectCoordinatesWithGemini JNull (gemini_sample 22.3038 70.8022 (Some 0.9))
           (Geocoded (google_sample 22.3038 70.8022)) of
      Inr r \<Rightarrow> latitude r = 22.3038 \<and> longitude r = 70.8022 \<and>
               gemini_coordinates r = Some (gemini_sample 22.3038 70.8022 (Some 0.9))
    | Inl e \<Rightarrow> False)"
proof -
  have far: "10 < calculateDistance 90 70.8022 (- 90) 70.8022"
    unfolding distance_poles using pi_ge_two by simp
  have near: "calculateDistance 22.3038 70.8022 22.3038 70.8022 \<le> 10"
    unfolding distance_same_point by simp
  have conf: "google_confidence < num_or (gm_confidence_score (gemini_sample 90 70.8022 (Some 0.9))) 0.7"
    by (simp add: google_confidence_value gemini_sample_def num_or_def)
  have g: "gm_latitude (gemini_sample la lo c) = Some la" "gm_longitude (gemini_sample la lo c) = Some lo"
    "gg_latitude (google_sample a b) = a" "gg_longitude (google_sample a b) = b" for la lo c a b
    by (simp_all add: gemini_sample_def google_sample_def)
  from reconciliation[of "gemini_sample 90 70.8022 (Some 0.9)" 90 "70.8022" JNull
         "google_sample (- 90) 70.8022"] far conf
  have 1: "case getPerfectCoordinatesWithGemini JNull (gemini_sample 90 70.8022 (Some 0.9))
           (Geocoded (google_sample (- 90) 70.8022)) of
      Inr r \<Rightarrow> latitude r = 90 \<and> longitude r = 70.8022 \<and>
               alternative_coordinates r = Some (GoogleCoords (google_sample (- 90) 70.8022))
    | Inl e \<Rightarrow> False"
    by (auto simp: g)
  from reconciliation[of "gemini_sample 22.3038 70.8022 (Some 0.9)" "22.3038" "70.8022" JNull
         "google_sample 22.3038 70.8022"] near
  have 2: "case getPerfectCoordinatesWithGemini JNull (gemini_sample 22.3038 70.8022 (Some 0.9))
           (Geocoded (google_sample 22.3038 70.8022)) of
      Inr r \<Rightarrow> latitude r = 22.3038 \<and> longitude r = 70.8022 \<and>
               gemini_coordinates r = Some (gemini_sample 22.3038 70.8022 (Some 0.9))
    | Inl e \<Rightarrow> False"
    by (auto simp: g)
  from far near conf 1 2 show ?thesis by (simp add: g)
qed

subsection \<open>The persistence adapter\<close>

text \<open>
  Claim C5 fails in the code. \<open>savePropertyNotice\<close> builds the date with
  \<open>new Date(year, month, day)\<close>, midnight in local time, and the readers print it with
  \<open>toISOString\<close>, in UTC: on a machine whose local time is ahead of UTC the notice date
  "18/07/2025" is read back as 17 July 2025.
\<close>

theorem notice_date_round_trip_kolkata:
  "(case savePropertyNotice kolkata (js ''id-1'') (js ''log-1'') (js ''id-2'') 1752900000000
           empty_store notice_sample of
      Inr (savedRecord, st) \<Rightarrow>
        (case getPropertyNoticeById st (js ''id-1'') of
           Inr notice \<Rightarrow> get notice (js ''notice_date'')
         | Inl e \<Rightarrow> JUndefined)
    | Inl e \<Rightarrow> JUndefined) = JStr (js ''2025-07-17'')"
  by code_simp

text \<open>Where local time is UTC, the same record is read back as 18 July 2025.\<close>

lemma notice_date_round_trip_utc:
  "(case savePropertyNotice utc (js ''id-1'') (js ''log-1'') (js ''id-2'') 1752900000000
           empty_store notice_sample of
      Inr (savedRecord, st) \<Rightarrow>
        (case getPropertyNoticeById st (js ''id-1'') of
           Inr notice \<Rightarrow> get notice (js ''notice_date'')
         | Inl e \<Rightarrow> JUndefined)
    | Inl e \<Rightarrow> JUndefined) = JStr (js ''2025-07-18'')"
  by code_simp

lemma map_of_doc_delete:
  "map_of (doc_delete k coll) k' = (if k' = k then None else map_of coll k')"
  by (induction coll) (auto simp: doc_delete_def)

lemma batch_commit_filter:
  assumes "distinct (map fst coll)"
  shows "batch_commit (map fst (filter P coll)) coll = filter (\<lambda>kv. \<not> P kv) coll"
  unfolding batch_commit_def
proof (rule filter_cong[OF refl])
  fix kv
  assume kv: "kv \<in> set coll"
  show "(fst kv \<notin> set (map fst (filter P coll))) = (\<not> P kv)"
  proof
    assume "fst kv \<notin> set (map fst (filter P coll))"
    with kv show "\<not> P kv" by force
  next
    assume n: "\<not> P kv"
    show "fst kv \<notin> set (map fst (filter P coll))"
    proof
      assume "fst kv \<in> set (map fst (filter P coll))"
      then obtain x where x: "x \<in> set coll" "P x" "fst x = fst kv" by auto
      from assms have "inj_on fst (set coll)" by (simp add: distinct_map)
      with x(1,3) kv have "x = kv" by (auto dest: inj_onD)
      with x(2) n show False by simp
    qed
  qed
qed

lemma delete_accepted:
  assumes "\<forall>c. rejects c = None" and "map_of (property_notices st) noticeId = Some d"
  shows "deletePropertyNotice rejects st noticeId =
           (Inr True,
            st\<lparr>property_notices := doc_delete noticeId (property_notices st),
               processing_logs :=
                 batch_commit
                   (map fst (filter (\<lambda>kv. get (snd kv) (js ''property_notice_id'') = JStr noticeId)
                      (processing_logs st)))
                   (processing_logs st)\<rparr>)"
  unfolding deletePropertyNotice_def using assms by (simp add: Let_def)

lemma delete_absent:
  assumes "rejects Init = None" and "rejects DocGet = None"
    and "map_of (property_notices st) noticeId = None"
  shows "deletePropertyNotice rejects st noticeId = (Inr False, st)"
  unfolding deletePropertyNotice_def using assms by simp

lemma delete_rejected_early:
  assumes "rejects Init \<noteq> None \<or> rejects DocGet \<noteq> None \<or>
           (map_of (property_notices st) noticeId \<noteq> None \<and> rejects DocDelete \<noteq> None)"
  shows "isl (fst (deletePropertyNotice rejects st noticeId)) \<and>
         snd (deletePropertyNotice rejects st noticeId) = st"
  unfolding deletePropertyNotice_def using assms
  by (auto simp: delete_failed_def split: option.splits)

lemma delete_rejected_late:
  assumes "rejects Init = None" and "rejects DocGet = None" and "rejects DocDelete = None"
    and "map_of (property_notices st) noticeId \<noteq> None"
    and "rejects LogsQuery \<noteq> None \<or> rejects BatchCommit \<noteq> None"
  shows "isl (fst (deletePropertyNotice rejects st noticeId)) \<and>
         snd (deletePropertyNotice rejects st noticeId) =
           st\<lparr>property_notices := doc_delete noticeId (property_notices st)\<rparr>"
  unfolding deletePropertyNotice_def using assms
  by (auto simp: delete_failed_def Let_def split: option.splits)

lemma read_absent:
  "map_of (property_notices st) noticeId = None \<Longrightarrow>
   getPropertyNoticeById st noticeId = Inr JNull"
  by (simp add: getPropertyNoticeById_def)

text \<open>
  Claim C7, as amended. The logs of a store have one entry for each identifier. When the
  store rejects no call, deleting the notice of a stored identifier returns true and leaves
  the store without that notice and without the log entries of that notice, every other
  notice and every other log entry being as before; for an identifier with no notice it
  returns false and changes nothing; in both cases reading the identifier afterwards gives
  \<open>null\<close> (404 from the route). The log entries are removed by one batch, the notice by a
  call of its own before it: when the store rejects the query of the logs or the commit of
  the batch, the function raises, the notice is removed and every log entry is still
  stored. When it rejects an earlier call the function raises and nothing is changed; the
  calls after the reading of the notice are not made when there is no notice.
\<close>

theorem delete_cascade:
  assumes "distinct (map fst (processing_logs st))"
  shows
    "((\<forall>c. rejects c = None) \<longrightarrow>
        deletePropertyNotice rejects st noticeId =
          (if map_of (property_notices st) noticeId = None then (Inr False, st)
           else (Inr True,
                 st\<lparr>property_notices :=
                      filter (\<lambda>kv. fst kv \<noteq> noticeId) (property_notices st),
                    processing_logs :=
                      filter (\<lambda>kv. get (snd kv) (js ''property_notice_id'') \<noteq> JStr noticeId)
                        (processing_logs st)\<rparr>)) \<and>
        getPropertyNoticeById (snd (deletePropertyNotice rejects st noticeId)) noticeId =
          Inr JNull \<and>
        status_code (get_notice (snd (deletePropertyNotice rejects st noticeId)) noticeId) = 404) \<and>
     (rejects Init = None \<and> rejects DocGet = None \<and> rejects DocDelete = None \<and>
      map_of (property_notices st) noticeId \<noteq> None \<and>
      (rejects LogsQuery \<noteq> None \<or> rejects BatchCommit \<noteq> None) \<longrightarrow>
        isl (fst (deletePropertyNotice rejects st noticeId)) \<and>
        snd (deletePropertyNotice rejects st noticeId) =
          st\<lparr>property_notices := filter (\<lambda>kv. fst kv \<noteq> noticeId) (property_notices st)\<rparr>) \<and>
     (rejects Init \<noteq> None \<or> rejects DocGet \<noteq> None \<or>
      (map_of (property_notices st) noticeId \<noteq> None \<and> rejects DocDelete \<noteq> None) \<longrightarrow>
        isl (fst (deletePropertyNotice rejects st noticeId)) \<and>
        snd (deletePropertyNotice rejects st noticeId) = st) \<and>
     (rejects Init = None \<and> rejects DocGet = None \<and>
      map_of (property_notices st) noticeId = None \<longrightarrow>
        deletePropertyNotice rejects st noticeId = (Inr False, st))"
proof (intro conjI impI)
  assume acc: "\<forall>c. rejects c = None"
  show "deletePropertyNotice rejects st noticeId =
          (if map_of (property_notices st) noticeId = None then (Inr False, st)
           else (Inr True,
                 st\<lparr>property_notices :=
                      filter (\<lambda>kv. fst kv \<noteq> noticeId) (property_notices st),
                    processing_logs :=
                      filter (\<lambda>kv. get (snd kv) (js ''property_notice_id'') \<noteq> JStr noticeId)
                        (processing_logs st)\<rparr>))"
  proof (cases "map_of (property_notices st) noticeId")
    case None
    with acc show ?thesis by (simp add: delete_absent)
  next
    case (Some d)
    show ?thesis
      unfolding delete_accepted[OF acc Some] batch_commit_filter[OF assms]
      using Some by (simp add: doc_delete_def)
  qed
next
  assume acc: "\<forall>c. rejects c = None"
  show "getPropertyNoticeById (snd (deletePropertyNotice rejects st noticeId)) noticeId =
          Inr JNull"
  proof (cases "map_of (property_notices st) noticeId")
    case None
    with acc show ?thesis by (simp add: delete_absent read_absent)
  next
    case (Some d)
    show ?thesis
      unfolding delete_accepted[OF acc Some] by (simp add: read_absent map_of_doc_delete)
  qed
next
  assume acc: "\<forall>c. rejects c = None"
  have "getPropertyNoticeById (snd (deletePropertyNotice rejects st noticeId)) noticeId =
          Inr JNull"
  proof (cases "map_of (property_notices st) noticeId")
    case None
    with acc show ?thesis by (simp add: delete_absent read_absent)
  next
    case (Some d)
    show ?thesis
      unfolding delete_accepted[OF acc Some] by (simp add: read_absent map_of_doc_delete)
  qed
  then show "status_code (get_notice (snd (deletePropertyNotice rejects st noticeId)) noticeId)
               = 404"
    by (simp add: get_notice_def)
next
  assume "rejects Init = None \<and> rejects DocGet = None \<and> rejects DocDelete = None \<and>
          map_of (property_notices st) noticeId \<noteq> None \<and>
          (rejects LogsQuery \<noteq> None \<or> rejects BatchCommit \<noteq> None)"
  then have "isl (fst (deletePropertyNotice rejects st noticeId)) \<and>
             snd (deletePropertyNotice rejects st noticeId) =
               st\<lparr>property_notices := doc_delete noticeId (property_notices st)\<rparr>"
    by (intro delete_rejected_late) blast+
  then show "isl (fst (deletePropertyNotice rejects st noticeId))"
    and "snd (deletePropertyNotice rejects st noticeId) =
           st\<lparr>property_notices := filter (\<lambda>kv. fst kv \<noteq> noticeId) (property_notices st)\<rparr>"
    by (simp_all add: doc_delete_def)
next
  assume "rejects Init \<noteq> None \<or> rejects DocGet \<noteq> None \<or>
          (map_of (property_notices st) noticeId \<noteq> None \<and> rejects DocDelete \<noteq> None)"
  then have "isl (fst (deletePropertyNotice rejects st noticeId)) \<and>
             snd (deletePropertyNotice rejects st noticeId) = st"
    by (rule delete_rejected_early)
  then show "isl (fst (deletePropertyNotice rejects st noticeId))"
    and "snd (deletePropertyNotice rejects st noticeId) = st"
    by simp_all
next
  assume "rejects Init = None \<and> rejects DocGet = None \<and>
          map_of (property_notices st) noticeId = None"
  then show "deletePropertyNotice rejects st noticeId = (Inr False, st)"
    by (simp add: delete_absent)
qed

theorem delete_cascade_witness:
  "distinct (map fst (processing_logs store_sample)) \<and>
   deletePropertyNotice no_rejection store_sample (js ''id-1'') =
     (Inr True,
      \<lparr>property_notices = [],
       processing_logs =
         [(js ''log-2'', JObj [(js ''property_notice_id'', JStr (js ''id-9''))])]\<rparr>) \<and>
   deletePropertyNotice no_rejection store_sample (js ''id-9'') = (Inr False, store_sample) \<and>
   commit_rejected BatchCommit \<noteq> None \<and>
   isl (fst (deletePropertyNotice commit_rejected store_sample (js ''id-1''))) \<and>
   snd (deletePropertyNotice commit_rejected store_sample (js ''id-1'')) =
     \<lparr>property_notices = [], processing_logs = processing_logs store_sample\<rparr>"
proof -
  have d: "distinct (map fst (processing_logs store_sample))" by code_simp
  have a: "\<forall>c. no_rejection c = None" by (simp add: no_rejection_def)
  have r: "commit_rejected Init = None" "commit_rejected DocGet = None"
    "commit_rejected DocDelete = None" "commit_rejected BatchCommit \<noteq> None"
    by (simp_all add: commit_rejected_def)
  have 1: "map_of (property_notices store_sample) (js ''id-1'') \<noteq> None" by code_simp
  have 9: "map_of (property_notices store_sample) (js ''id-9'') = None" by code_simp
  have n1: "store_sample\<lparr>property_notices :=
              filter (\<lambda>kv. fst kv \<noteq> js ''id-1'') (property_notices store_sample),
            processing_logs :=
              filter (\<lambda>kv. get (snd kv) (js ''property_notice_id'') \<noteq> JStr (js ''id-1''))
                (processing_logs store_sample)\<rparr> =
            \<lparr>property_notices = [],
             processing_logs =
               [(js ''log-2'', JObj [(js ''property_notice_id'', JStr (js ''id-9''))])]\<rparr>"
    by code_simp
  have n2: "store_sample\<lparr>property_notices :=
              filter (\<lambda>kv. fst kv \<noteq> js ''id-1'') (property_notices store_sample)\<rparr> =
            \<lparr>property_notices = [], processing_logs = processing_logs store_sample\<rparr>"
    by code_simp
  from delete_cascade[OF d, of no_rejection "js ''id-1''"] a 1 n1
  have w1: "deletePropertyNotice no_rejection store_sample (js ''id-1'') =
     (Inr True,
      \<lparr>property_notices = [],
       processing_logs =
         [(js ''log-2'', JObj [(js ''property_notice_id'', JStr (js ''id-9''))])]\<rparr>)"
    by simp
  from delete_cascade[OF d, of no_rejection "js ''id-9''"] a 9
  have w2: "deletePropertyNotice no_rejection store_sample (js ''id-9'') = (Inr False, store_sample)"
    by simp
  from delete_cascade[OF d, of commit_rejected "js ''id-1''"] r 1 n2
  have w3: "isl (fst (deletePropertyNotice commit_rejected store_sample (js ''id-1''))) \<and>
   snd (deletePropertyNotice commit_rejected store_sample (js ''id-1'')) =
     \<lparr>property_notices = [], processing_logs = processing_logs store_sample\<rparr>"
    by simp
  from d w1 w2 r(4) w3 show ?thesis by blast
qed

text \<open>
  Claim C7 as stated fails when the store rejects the commit of the batch: the function
  raises instead of returning true, the notice is removed and its log entry is still
  stored, so the notice and its log entries are not deleted in one atomic step.
\<close>

theorem delete_not_atomic_counterexample:
  "map_of (property_notices store_sample) (js ''id-1'') \<noteq> None \<and>
   isl (fst (deletePropertyNotice commit_rejected store_sample (js ''id-1''))) \<and>
   map_of (property_notices (snd (deletePropertyNotice commit_rejected store_sample
     (js ''id-1'')))) (js ''id-1'') = None \<and>
   map_of (processing_logs (snd (deletePropertyNotice commit_rejected store_sample
     (js ''id-1'')))) (js ''log-1'') =
     Some (JObj [(js ''property_notice_id'', JStr (js ''id-1''))])"
  by code_simp

lemma delete_route_responses:
  "status_code (fst (delete_notice no_rejection store_sample (js ''id-1''))) = 200 \<and>
   status_code (fst (delete_notice no_rejection store_sample (js ''id-9''))) = 404 \<and>
   status_code (fst (delete_notice commit_rejected store_sample (js ''id-1''))) = 500"
  by code_simp

subsection \<open>The route that saves a notice\<close>

text \<open>
  The patterns of the route's cleaner match no Gujarati name, so the route geocodes such a
  name as it is, while Step 1 of the post-processor, which has the patterns in Gujarati,
  cleans it.
\<close>

lemma route_cleaner_leaves_gujarati:
  "save_notice_clean scenarioB = scenarioB \<and> step1 scenarioB = ribda"
  by code_simp

lemma doc_set_result: "doc_set k d coll = Inr coll' \<Longrightarrow> coll' = put k d coll"
  by (simp add: doc_set_def split: if_splits)

lemma logProcessingStep_notices:
  "property_notices (logProcessingStep logDoc logId now pid step stat em pt st) =
     property_notices st"
  by (simp add: logProcessingStep_def Let_def split: sum.splits)

lemma save_try_stores:
  assumes "save_try tza newId logDoc logId now st extractedData = Inr (savedRecord, st1)"
  shows "map_of (property_notices st1) newId \<noteq> None"
proof -
  from assms obtain d notices where s: "doc_set newId d (property_notices st) = Inr notices"
    and n: "property_notices st1 = notices"
    unfolding save_try_def Let_def
    by (auto split: sum.splits simp: logProcessingStep_notices)
  from doc_set_result[OF s] n show ?thesis by (simp add: map_of_put)
qed

lemma savePropertyNotice_stores:
  assumes "savePropertyNotice tza newId logDoc logId now st extractedData = Inr (savedRecord, st1)"
  shows "map_of (property_notices st1) newId \<noteq> None"
  using assms save_try_stores unfolding savePropertyNotice_def
  by (auto split: sum.splits)

lemma update_location_keeps:
  assumes "updatePropertyNoticeLocation now st k loc = Inr st'"
    and "map_of (property_notices st) k' \<noteq> None"
  shows "map_of (property_notices st') k' \<noteq> None"
  using assms
  by (auto simp: updatePropertyNoticeLocation_def Let_def doc_update_def map_of_put
           split: sum.splits option.splits if_splits)

lemma auto_geocode_keeps:
  assumes "map_of (property_notices st) k \<noteq> None"
  shows "map_of (property_notices (auto_geocode g later st savedRecord extractedData)) k \<noteq> None"
  using assms update_location_keeps
  unfolding auto_geocode_def Let_def
  by (auto split: jsvalue.splits geocoding.splits sum.splits)

lemma auto_geocode_failure:
  assumes "\<And>q d l. g q d \<noteq> Geocoded l"
  shows "auto_geocode g later st savedRecord extractedData = st"
  using assms unfolding auto_geocode_def Let_def
  by (auto split: jsvalue.splits geocoding.splits sum.splits)

lemma save_notice_survives_geocoding:
  assumes "getprop req_body (js ''extractedData'') = Inr extractedData"
    and "truthy extractedData"
    and "savePropertyNotice tza newId logDoc logId now st
           (make_dataToSave req_body extractedData) = Inr (savedRecord, st1)"
  shows "status_code (fst (save_notice tza newId logDoc logId now later g st req_body)) = 200 \<and>
         get (body (fst (save_notice tza newId logDoc logId now later g st req_body)))
           (js ''success'') = JBool True \<and>
         map_of (property_notices
                  (snd (save_notice tza newId logDoc logId now later g st req_body))) newId \<noteq> None"
proof -
  from savePropertyNotice_stores[OF assms(3)]
  have k: "map_of (property_notices st1) newId \<noteq> None" .
  show ?thesis
    using assms k auto_geocode_keeps[OF k]
    by (simp add: save_notice_def Let_def get_def)
qed

text \<open>
  Claim C6 fails in the code. With the geocoding service unreachable, or finding nothing,
  the notice is saved and the response is a success, as the claim says; but the route
  writes nothing about the failure, and the stored \<open>geocoding_status\<close> stays the
  \<open>pending\<close> written by the save.
\<close>

theorem save_notice_status_stays_pending:
  "status_code (fst (save_notice utc (js ''id-1'') (js ''log-1'') (js ''id-2'') 1752900000000
      1752900001000 geocoder_down empty_store request_sample)) = 200 \<and>
   get (body (fst (save_notice utc (js ''id-1'') (js ''log-1'') (js ''id-2'') 1752900000000
      1752900001000 geocoder_down empty_store request_sample))) (js ''success'') = JBool True \<and>
   stored_field (snd (save_notice utc (js ''id-1'') (js ''log-1'') (js ''id-2'') 1752900000000
      1752900001000 geocoder_down empty_store request_sample)) (js ''id-1'')
      (js ''geocoding_status'') = JStr (js ''pending'') \<and>
   stored_field (snd (save_notice utc (js ''id-1'') (js ''log-1'') (js ''id-2'') 1752900000000
      1752900001000 geocoder_finds_nothing empty_store request_sample)) (js ''id-1'')
      (js ''geocoding_status'') = JStr (js ''pending'')"
proof -
  have 1: "status_code (fst (save_notice utc (js ''id-1'') (js ''log-1'') (js ''id-2'') 1752900000000
      1752900001000 geocoder_down empty_store request_sample)) = 200"
    by code_simp
  have 2: "get (body (fst (save_notice utc (js ''id-1'') (js ''log-1'') (js ''id-2'') 1752900000000
      1752900001000 geocoder_down empty_store request_sample))) (js ''success'') = JBool True"
    by code_simp
  have 3: "stored_field (snd (save_notice utc (js ''id-1'') (js ''log-1'') (js ''id-2'') 1752900000000
      1752900001000 geocoder_down empty_store request_sample)) (js ''id-1'')
      (js ''geocoding_status'') = JStr (js ''pending'')"
    by code_simp
  have 4: "stored_field (snd (save_notice utc (js ''id-1'') (js ''log-1'') (js ''id-2'') 1752900000000
      1752900001000 geocoder_finds_nothing empty_store request_sample)) (js ''id-1'')
      (js ''geocoding_status'') = JStr (js ''pending'')"
    by code_simp
  from 1 2 3 4 show ?thesis by (intro conjI)
qed

end
